theory Spec2Isabelle
  imports Main
begin

unbundle bit_operations_syntax

section \<open>Platform constants\<close>

text \<open>
  The program is Linux-only (it calls \<^verbatim>\<open>unshare(CLONE_NEWNS)\<close>). The numeric values of
  the macros it takes from the system headers are those of Linux.
\<close>

definition O_RDONLY :: int where "O_RDONLY = 0"
definition O_WRONLY :: int where "O_WRONLY = 1"
definition O_RDWR :: int where "O_RDWR = 2"
definition O_ACCMODE :: int where "O_ACCMODE = 3"
definition O_CREAT :: int where "O_CREAT = 64"
definition O_APPEND :: int where "O_APPEND = 1024"
definition O_NONBLOCK :: int where "O_NONBLOCK = 2048"
definition FD_CLOEXEC :: int where "FD_CLOEXEC = 1"
definition F_GETFD :: int where "F_GETFD = 1"
definition F_SETFD :: int where "F_SETFD = 2"
definition F_GETFL :: int where "F_GETFL = 3"
definition F_SETFL :: int where "F_SETFL = 4"
definition LOCK_EX :: int where "LOCK_EX = 2"
definition LOCK_NB :: int where "LOCK_NB = 4"
definition ENOENT :: int where "ENOENT = 2"
definition EWOULDBLOCK :: int where "EWOULDBLOCK = 11"
definition EEXIST :: int where "EEXIST = 17"
definition SIGHUP :: int where "SIGHUP = 1"
definition SIGINT :: int where "SIGINT = 2"
definition SIGQUIT :: int where "SIGQUIT = 3"
definition SIGPIPE :: int where "SIGPIPE = 13"
definition SIGTERM :: int where "SIGTERM = 15"
definition SIGCHLD :: int where "SIGCHLD = 17"
definition SIG_BLOCK :: int where "SIG_BLOCK = 0"
definition SIG_UNBLOCK :: int where "SIG_UNBLOCK = 1"
definition SIG_SETMASK :: int where "SIG_SETMASK = 2"
definition WNOHANG :: int where "WNOHANG = 1"
definition STDIN_FILENO :: int where "STDIN_FILENO = 0"
definition STDOUT_FILENO :: int where "STDOUT_FILENO = 1"
definition STDERR_FILENO :: int where "STDERR_FILENO = 2"
definition CLONE_NEWNS :: int where "CLONE_NEWNS = 131072"
definition MNT_DETACH :: int where "MNT_DETACH = 2"

text \<open>\<^verbatim>\<open>WIFEXITED\<close> and \<^verbatim>\<open>WEXITSTATUS\<close> of \<^verbatim>\<open><sys/wait.h>\<close>.\<close>

definition WIFEXITED :: "int \<Rightarrow> bool" where
  "WIFEXITED status = (status AND 127 = 0)"

definition WEXITSTATUS :: "int \<Rightarrow> int" where
  "WEXITSTATUS status = drop_bit 8 (status AND 65280)"

text \<open>exec\_defs.hpp\<close>

definition WITH_MOUNTPOINT :: string where "WITH_MOUNTPOINT = ''/with''"
definition WITH_NAMESPACE_DIR :: string where "WITH_NAMESPACE_DIR = ''/usr/bin''"

section \<open>The failure exception (exec.hpp, exec.cpp)\<close>

text \<open>
  \<^verbatim>\<open>char m_err[256]\<close>. A byte of the buffer is \<open>Some c\<close> once it has been written and
  \<open>None\<close> while it is still uninitialised memory.
\<close>

record failure =
  m_err :: "char option list"

definition NUL :: char where "NUL = CHR 0x00"

text \<open>
  \<^verbatim>\<open>vsnprintf(buf, size, fmt, ap)\<close> of the C library, applied to the expansion \<open>s\<close> of
  the format with its arguments: at most \<open>n - 1\<close> characters are stored, followed by
  the terminator; the rest of the buffer is left as it was.
\<close>

definition vsnprintf :: "char option list \<Rightarrow> nat \<Rightarrow> string \<Rightarrow> char option list" where
  "vsnprintf buf n s =
     (if n = 0 then buf
      else (let out = take (n - 1) s
            in map Some out @ [Some NUL] @ drop (length out + 1) buf))"

text \<open>\<^verbatim>\<open>failure() { m_err[0] = '\0'; }\<close>\<close>

definition failure_default :: failure where
  "failure_default = \<lparr>m_err = (replicate 256 None)[0 := Some NUL]\<rparr>"

text \<open>
  \<^verbatim>\<open>failure(const char *fmt, ...)\<close>:
  \<^verbatim>\<open>vsnprintf(m_err, sizeof(m_err)-1, fmt, ap); m_err[255] = '\0';\<close>
  The argument is the expansion of the format.
\<close>

definition failure_fmt :: "string \<Rightarrow> failure" where
  "failure_fmt s = \<lparr>m_err = (vsnprintf (replicate 256 None) (256 - 1) s)[255 := Some NUL]\<rparr>"

text \<open>
  Reading a C string out of a buffer: the characters before the first terminator.
  The read is undefined (\<open>None\<close>) when it meets an uninitialised byte, or the end of the
  buffer, before a terminator.
\<close>

fun cstr :: "char option list \<Rightarrow> string option" where
  "cstr [] = None"
| "cstr (None # bs) = None"
| "cstr (Some c # bs) = (if c = NUL then Some [] else map_option ((#) c) (cstr bs))"

text \<open>\<^verbatim>\<open>const char* what() const throw() { return m_err; }\<close>\<close>

definition what :: "failure \<Rightarrow> string option" where
  "what f = cstr (m_err f)"

section \<open>The operating system as seen by the program\<close>

text \<open>\<^verbatim>\<open>struct sigaction\<close>: \<open>sa_handler\<close> is 0 for \<^verbatim>\<open>SIG_DFL\<close>, 1 for \<^verbatim>\<open>SIG_IGN\<close>.\<close>

record sigaction =
  sa_handler :: int
  sa_mask :: "int set"
  sa_flags :: int

definition SIG_IGN :: int where "SIG_IGN = 1"

text \<open>
  Every call the program makes into the kernel or the C library, with its arguments.
  \<open>Eprintf\<close> is \<^verbatim>\<open>fprintf(stderr, ...)\<close> with the expanded text; a \<^verbatim>\<open>FILE*\<close> is an
  integer, 0 for \<^verbatim>\<open>NULL\<close>. \<open>Unlink\<close> is listed although no function of the program
  issues it.
\<close>

datatype syscall =
    Pipe
  | Close int
  | Fcntl int int int
  | Dup int
  | Open string int int
  | Fork
  | Setpgid int int
  | Dup2 int int
  | Execvp string "string list" "string list"
  | Execve string "string list" "string list"
  | Write int string
  | Read int nat
  | Kill int int
  | Waitpid int int
  | Sigemptyset
  | Sigaddset int
  | Sigaction int sigaction
  | Sigprocmask int "int set"
  | Sigwait "int set"
  | Flock int int
  | Ftruncate int int
  | Getpid
  | Unlink string
  | Mkdir string int
  | Symlink string string
  | Fopen string string
  | Fprintf int string
  | Fclose int
  | Eprintf string
  | Unshare int
  | Umount2 string int
  | Mount string string string int
  | Getuid
  | Getgid
  | Setresuid int int int
  | Setresgid int int int
  | Clearenv
  | Putenv string

text \<open>
  What a call gives back: the return value, the value it would store in \<^verbatim>\<open>errno\<close>
  on failure, up to two values returned through pointers (the two descriptors of
  \<^verbatim>\<open>pipe\<close>, the status of \<^verbatim>\<open>waitpid\<close>, the signal of \<^verbatim>\<open>sigwait\<close>), and the bytes a
  \<^verbatim>\<open>read\<close> delivers.
\<close>

record sysret =
  ret :: int
  err :: int
  out1 :: int
  out2 :: int
  bytes :: string

text \<open>
  The process state the claims speak about: the calls made so far, \<^verbatim>\<open>errno\<close>, the
  signal mask, the disposition of SIGHUP, and \<^verbatim>\<open>environ\<close>.
\<close>

record world =
  trace :: "syscall list"
  errno :: int
  sigmask :: "int set"
  hup_action :: sigaction
  environ :: "string list"

text \<open>
  The environment of a run is arbitrary: \<open>answer\<close> decides the result of every call
  from the calls made before it, and \<open>strerror\<close> is the text \<^verbatim>\<open>%m\<close> expands to.
\<close>

record libc =
  answer :: "syscall list \<Rightarrow> syscall \<Rightarrow> sysret"
  strerror :: "int \<Rightarrow> string"

text \<open>A call is recorded; a failing call (negative result) stores its error in \<^verbatim>\<open>errno\<close>.\<close>

definition sys :: "libc \<Rightarrow> 'a world_scheme \<Rightarrow> syscall \<Rightarrow> 'a world_scheme \<times> sysret" where
  "sys L w c =
     (let r = answer L (trace w) c
      in (w\<lparr>trace := trace w @ [c], errno := (if ret r < 0 then err r else errno w)\<rparr>, r))"

text \<open>
  \<^verbatim>\<open>sigprocmask(how, &set, &old)\<close>: when the call succeeds the mask changes as POSIX says
  and the previous mask is returned.
\<close>

definition sys_sigprocmask ::
  "libc \<Rightarrow> 'a world_scheme \<Rightarrow> int \<Rightarrow> int set \<Rightarrow> 'a world_scheme \<times> int \<times> int set" where
  "sys_sigprocmask L w how sigs =
     (let (w1, r) = sys L w (Sigprocmask how sigs)
      in if ret r = 0
         then (w1\<lparr>sigmask :=
                 (if how = SIG_BLOCK then sigmask w \<union> sigs
                  else if how = SIG_UNBLOCK then sigmask w - sigs
                  else if how = SIG_SETMASK then sigs
                  else sigmask w)\<rparr>, 0, sigmask w)
         else (w1, ret r, {}))"

text \<open>
  \<^verbatim>\<open>sigaction(sig, &act, &old)\<close>: the call returns 0, or -1 when it fails. Unless it
  fails, the disposition of the signal is replaced and the previous one returned. Only
  SIGHUP's disposition is tracked.
\<close>

definition sys_sigaction ::
  "libc \<Rightarrow> 'a world_scheme \<Rightarrow> int \<Rightarrow> sigaction \<Rightarrow> 'a world_scheme \<times> int \<times> sigaction" where
  "sys_sigaction L w sig act =
     (let (w1, r) = sys L w (Sigaction sig act)
      in if ret r \<noteq> - 1
         then ((if sig = SIGHUP then w1\<lparr>hup_action := act\<rparr> else w1), ret r, hup_action w)
         else (w1, ret r, hup_action w))"

text \<open>
  \<^verbatim>\<open>read(fd, buf, count)\<close>: a successful read delivers at most \<open>count\<close> bytes and
  returns how many.
\<close>

definition sys_read ::
  "libc \<Rightarrow> 'a world_scheme \<Rightarrow> int \<Rightarrow> nat \<Rightarrow> 'a world_scheme \<times> int \<times> string" where
  "sys_read L w fd count =
     (let (w1, r) = sys L w (Read fd count)
      in if ret r < 0 then (w1, ret r, [])
         else (w1, int (length (take count (bytes r))), take count (bytes r)))"

text \<open>
  \<^verbatim>\<open>clearenv()\<close> and \<^verbatim>\<open>putenv(string)\<close> of the GNU C library. \<^verbatim>\<open>putenv\<close> replaces the
  first entry whose name is that of the string, or appends the string; a string without
  \<^verbatim>\<open>=\<close> removes the variable of that name.
\<close>

fun add_to_environ :: "string \<Rightarrow> string \<Rightarrow> string list \<Rightarrow> string list" where
  "add_to_environ name s [] = [s]"
| "add_to_environ name s (e # es) =
     (if take (length name + 1) e = name @ ''='' then s # es
      else e # add_to_environ name s es)"

definition env_name :: "string \<Rightarrow> string" where
  "env_name s = takeWhile (\<lambda>c. c \<noteq> CHR ''='') s"

definition putenv_environ :: "string \<Rightarrow> string list \<Rightarrow> string list" where
  "putenv_environ s env =
     (if CHR ''='' \<in> set s then add_to_environ (env_name s) s env
      else filter (\<lambda>e. take (length s + 1) e \<noteq> s @ ''='') env)"

definition putenv :: "libc \<Rightarrow> 'a world_scheme \<Rightarrow> string \<Rightarrow> 'a world_scheme" where
  "putenv L w s =
     (let w1 = fst (sys L w (Putenv s))
      in w1\<lparr>environ := putenv_environ s (environ w1)\<rparr>)"

definition clearenv :: "libc \<Rightarrow> 'a world_scheme \<Rightarrow> 'a world_scheme" where
  "clearenv L w = (fst (sys L w Clearenv))\<lparr>environ := []\<rparr>"

text \<open>How a function of the program ends.\<close>

datatype 'a outcome =
    Ok 'a               \<comment> \<open>it returns\<close>
  | Throw failure       \<comment> \<open>it throws\<close>
  | Exit int            \<comment> \<open>the process ends in \<^verbatim>\<open>_exit\<close>\<close>
  | Exec_done           \<comment> \<open>the process image is replaced by a successful exec\<close>
  | Crash               \<comment> \<open>undefined behaviour (a null pointer is dereferenced)\<close>
  | Aborted             \<comment> \<open>\<^verbatim>\<open>std::terminate\<close>: a destructor throws during unwinding\<close>

text \<open>\<^verbatim>\<open>%d\<close>\<close>

function digits :: "nat \<Rightarrow> string" where
  "digits n = (if n < 10 then [char_of (48 + n)] else digits (n div 10) @ [char_of (48 + n mod 10)])"
  by pat_completeness auto
termination
  by (relation "measure id") auto

definition show_int :: "int \<Rightarrow> string" where
  "show_int i = (if i < 0 then CHR ''-'' # digits (nat (- i)) else digits (nat i))"

definition NL :: char where "NL = CHR 0x0A"

section \<open>The setuid helper (exec\_with\_namespace.cpp)\<close>

text \<open>\<^verbatim>\<open>std::string::find\<close> and \<^verbatim>\<open>rfind\<close> of one character; \<open>None\<close> is \<^verbatim>\<open>npos\<close>.\<close>

fun find_char :: "char \<Rightarrow> string \<Rightarrow> nat option" where
  "find_char c [] = None"
| "find_char c (x # xs) = (if x = c then Some 0 else map_option Suc (find_char c xs))"

definition rfind_char :: "char \<Rightarrow> string \<Rightarrow> nat option" where
  "rfind_char c s =
     (case find_char c (rev s) of None \<Rightarrow> None | Some k \<Rightarrow> Some (length s - 1 - k))"

text \<open>\<^verbatim>\<open>s[i]\<close> of a \<^verbatim>\<open>std::string\<close>: the terminator at \<open>i = s.size()\<close>.\<close>

definition char_at :: "string \<Rightarrow> nat \<Rightarrow> char" where
  "char_at s i = (if i < length s then s ! i else NUL)"

text \<open>GNU \<^verbatim>\<open>basename\<close>: what follows the last slash.\<close>

definition basename :: "string \<Rightarrow> string" where
  "basename s = (case rfind_char CHR ''/'' s of None \<Rightarrow> s | Some i \<Rightarrow> drop (i + 1) s)"

text \<open>A failing \<^verbatim>\<open>CHECK\<close> of the helper: \<^verbatim>\<open>fprintf(stderr, args); return 1;\<close>\<close>

definition check_fail :: "libc \<Rightarrow> world \<Rightarrow> string \<Rightarrow> world \<times> int" where
  "check_fail L w msg = (fst (sys L w (Eprintf msg)), 1)"

definition usage :: "libc \<Rightarrow> world \<Rightarrow> string \<Rightarrow> world \<times> int" where
  "usage L w progname =
     check_fail L w (''usage: '' @ progname
        @ '' cmd args... -- mount-name target1=src1 target2=src ... -- env'' @ [NL]
        @ ''    This is a setuid utility helper for with_exec.lua and /usr/bin/with'' @ [NL]
        @ ''    For each target=src, makes a symlink mount-name/target1 => src.'' @ [NL])"

function mkdir_p :: "libc \<Rightarrow> world \<Rightarrow> string \<Rightarrow> int \<Rightarrow> world \<times> int" where
  "mkdir_p L w dir mode =
     (let (w1, r) = sys L w (Mkdir dir mode)
      in if ret r < 0 \<and> errno w1 = ENOENT
         then (case rfind_char CHR ''/'' dir of
                 None \<Rightarrow> (w1, ret r)
               | Some slash \<Rightarrow>
                   (let (w2, r2) = mkdir_p L w1 (take slash dir) mode;
                        (w3, r3) = sys L w2 (Mkdir dir mode)
                    in (w3, ret r3)))
         else (w1, ret r))"
  by pat_completeness auto
termination
  apply (relation "measure (\<lambda>(L, w, dir, mode). length dir)")
   apply simp
  apply (case_tac dir)
   apply (auto simp: rfind_char_def split: option.splits)
  done

text \<open>
  One round of the loop of \<^verbatim>\<open>create_symlinks_and_metadata\<close>: \<open>Some r\<close> when the round
  leaves the function with \<^verbatim>\<open>return r\<close>, \<open>None\<close> when the loop goes on.
\<close>

definition symlink_one :: "libc \<Rightarrow> world \<Rightarrow> string \<Rightarrow> string \<Rightarrow> world \<times> int option" where
  "symlink_one L w progname target_source =
     (let bad = (\<lambda>u::unit. map_prod id Some (check_fail L w
                  (progname @ '' argument '' @ target_source
                     @ '' is must be of the form target=src'' @ [NL])))
      in case find_char CHR ''='' target_source of
           None \<Rightarrow> bad ()
         | Some equal_index \<Rightarrow>
             if char_at target_source (equal_index + 1) = NUL then bad ()
             else
               (let target = take equal_index target_source;
                    source = drop (equal_index + 1) target_source;
                    mount_path = WITH_MOUNTPOINT @ ''/'' @ target;
                    made = (case rfind_char CHR ''/'' mount_path of
                              None \<Rightarrow> (w, None)
                            | Some path_end_index \<Rightarrow>
                                (let dir_path = take path_end_index mount_path;
                                     (w1, r) = mkdir_p L w dir_path 493
                                 in if r \<ge> 0 \<or> errno w1 = EEXIST then (w1, None)
                                    else map_prod id Some (check_fail L w1
                                       (progname @ '': create '' @ dir_path @ '' failed: ''
                                          @ strerror L (errno w1) @ [NL]))))
                in case made of
                     (w1, Some r) \<Rightarrow> (w1, Some r)
                   | (w1, None) \<Rightarrow>
                       (let (w2, r) = sys L w1 (Symlink source mount_path)
                        in if ret r \<ge> 0 then (w2, None)
                           else map_prod id Some (check_fail L w2
                              (progname @ '': symlink '' @ mount_path @ '' -> '' @ source
                                 @ '' failed: '' @ strerror L (errno w2) @ [NL])))))"

fun symlink_loop :: "libc \<Rightarrow> world \<Rightarrow> string \<Rightarrow> string list \<Rightarrow> world \<times> int option" where
  "symlink_loop L w progname [] = (w, None)"
| "symlink_loop L w progname (ts # rest) =
     (case symlink_one L w progname ts of
        (w1, Some r) \<Rightarrow> (w1, Some r)
      | (w1, None) \<Rightarrow> symlink_loop L w1 progname rest)"

text \<open>\<^verbatim>\<open>for (it ...) fprintf(fd, "%s<sep>", *it);\<close>\<close>

fun write_tokens :: "libc \<Rightarrow> world \<Rightarrow> int \<Rightarrow> string \<Rightarrow> string list \<Rightarrow> world" where
  "write_tokens L w fd sep [] = w"
| "write_tokens L w fd sep (x # xs) =
     write_tokens L (fst (sys L w (Fprintf fd (x @ sep)))) fd sep xs"

text \<open>
  The loop starts at \<^verbatim>\<open>++ns_args.begin()\<close>, which is undefined on an empty list.
  \<^verbatim>\<open>CHECK(fd >= 0, ...)\<close> compares a \<^verbatim>\<open>FILE*\<close> with the null pointer and never fails, so
  a failed \<^verbatim>\<open>fopen\<close> reaches \<^verbatim>\<open>fprintf(NULL, ...)\<close>.
\<close>

definition create_symlinks_and_metadata ::
  "libc \<Rightarrow> world \<Rightarrow> string \<Rightarrow> string list \<Rightarrow> world \<times> int outcome" where
  "create_symlinks_and_metadata L w progname ns_args =
     (case ns_args of
        [] \<Rightarrow> (w, Crash)
      | first # pairs \<Rightarrow>
          (case symlink_loop L w progname pairs of
             (w1, Some r) \<Rightarrow> (w1, Ok r)
           | (w1, None) \<Rightarrow>
               (let (w2, r) = sys L w1 (Fopen (WITH_MOUNTPOINT @ ''/.ns'') ''w'');
                    fd = ret r
                in if fd = 0 then (w2, Crash)
                   else (fst (sys L (write_tokens L w2 fd '' '' ns_args) (Fclose fd)), Ok 0))))"

text \<open>\<^verbatim>\<open>for (int i = 1; i < argc; ++i) ns_args.push_back(argv[i]);\<close>\<close>

function copy_args :: "string list \<Rightarrow> nat \<Rightarrow> string list \<Rightarrow> string list" where
  "copy_args argv i acc =
     (if i < length argv then copy_args argv (i + 1) (acc @ [argv ! i]) else acc)"
  by pat_completeness auto
termination
  by (relation "measure (\<lambda>(argv, i, acc). length argv - i)") auto

text \<open>\<^verbatim>\<open>while (i > 0 && strcmp(argv[i], "--") != 0) args.push_front(argv[i--]);\<close>\<close>

function collect_back :: "string list \<Rightarrow> int \<Rightarrow> string list \<Rightarrow> string list \<times> int" where
  "collect_back argv i acc =
     (if i > 0 \<and> argv ! nat i \<noteq> ''--'' then collect_back argv (i - 1) (argv ! nat i # acc)
      else (acc, i))"
  by pat_completeness auto
termination
  by (relation "measure (\<lambda>(argv, i, acc). nat i)") auto

text \<open>\<^verbatim>\<open>while (i > 0) exec_args.push_front(argv[i--]);\<close>\<close>

function collect_rest :: "string list \<Rightarrow> int \<Rightarrow> string list \<Rightarrow> string list" where
  "collect_rest argv i acc =
     (if i > 0 then collect_rest argv (i - 1) (argv ! nat i # acc) else acc)"
  by pat_completeness auto
termination
  by (relation "measure (\<lambda>(argv, i, acc). nat i)") auto

text \<open>
  \<^verbatim>\<open>main\<close> from \<^verbatim>\<open>unshare\<close> on. An \<^verbatim>\<open>execvp\<close> that succeeds (answer 0) does not return.
  With no command, \<^verbatim>\<open>execvp(NULL, ...)\<close> dereferences the null pointer.
\<close>

definition main_privileged ::
  "libc \<Rightarrow> world \<Rightarrow> string \<Rightarrow> string list \<Rightarrow> string list \<Rightarrow> string list \<Rightarrow> world \<times> int outcome" where
  "main_privileged L w progname env_args ns_args exec_args =
     (let fail = (\<lambda>w msg. map_prod id Ok (check_fail L w msg));
          (w1, r1) = sys L w (Unshare CLONE_NEWNS)
      in if ret r1 \<noteq> 0
         then fail w1 (progname @ '': unshare failed: '' @ strerror L (errno w1) @ [NL])
         else
      (let (w2, r2) = sys L w1 (Umount2 WITH_MOUNTPOINT MNT_DETACH)
       in if \<not> ret r2 \<ge> 0
          then fail w2 (progname @ '': umount2 tmpfs /with failed: '' @ strerror L (errno w2) @ [NL])
          else
      (let mount_name = hd ns_args;
           (w3, r3) = sys L w2 (Mount mount_name ''/with'' ''tmpfs'' 0)
       in if \<not> ret r3 \<ge> 0
          then fail w3 (progname @ '': mount tmpfs /with failed: '' @ strerror L (errno w3) @ [NL])
          else
      (case create_symlinks_and_metadata L w3 progname ns_args of
         (w4, Ok r) \<Rightarrow>
           if r \<noteq> 0 then (w4, Ok r)
           else
             (let (w5, r5) = sys L w4 (Fopen (WITH_MOUNTPOINT @ ''/.env'') ''w'');
                  fd = ret r5
              in if fd = 0 then (w5, Crash)
                 else
             (let w6 = fst (sys L (write_tokens L w5 fd [NL] env_args) (Fclose fd));
                  (w7, ru) = sys L w6 Getuid;
                  uid = ret ru;
                  (w8, rg) = sys L w7 Getgid;
                  gid = ret rg;
                  (w9, rs) = sys L w8 (Setresuid uid uid uid)
              in if \<not> ret rs \<ge> 0
                 then fail w9 (progname @ '': setresuid/setresgid failed: ''
                                 @ strerror L (errno w9) @ [NL])
                 else
             (let (w10, rs') = sys L w9 (Setresgid gid gid gid)
              in if \<not> ret rs' \<ge> 0
                 then fail w10 (progname @ '': setresuid/setresgid failed: ''
                                  @ strerror L (errno w10) @ [NL])
                 else
             (let w11 = fold (\<lambda>env_var w. putenv L w env_var) env_args (clearenv L w10)
              in case exec_args of
                   [] \<Rightarrow> (w11, Crash)
                 | file # args \<Rightarrow>
                     (let (w12, re) = sys L w11 (Execvp file exec_args (environ w11))
                      in if ret re = 0 then (w12, Exec_done)
                         else if ret re = - 1
                         then fail w12 (progname @ '': cannot exec '' @ file @ '': ''
                                          @ strerror L (errno w12) @ [NL])
                         else (w12, Ok 1))))))
       | (w4, other) \<Rightarrow> (w4, other)))))"

text \<open>\<^verbatim>\<open>main\<close>; \<open>argv\<close> holds \<^verbatim>\<open>argv[0..argc-1]\<close>. The result \<open>Ok n\<close> is \<^verbatim>\<open>return n\<close>.\<close>

definition main :: "libc \<Rightarrow> world \<Rightarrow> string list \<Rightarrow> world \<times> int outcome" where
  "main L w argv =
     (case argv of
        [] \<Rightarrow> (w, Crash)
      | argv0 # rest \<Rightarrow>
          (let progname = basename argv0;
               argc = int (length argv)
           in if argc \<le> 1 then map_prod id Ok (usage L w progname)
              else if argv ! 1 = ''--init.d''
              then create_symlinks_and_metadata L w progname (copy_args argv 1 [])
              else
                (let (env_args, i1) = collect_back argv (argc - 1) [];
                     (ns_args, i2) = collect_back argv (i1 - 1) []
                 in if length ns_args = 0 then map_prod id Ok (usage L w progname)
                    else main_privileged L w progname env_args ns_args
                           (collect_rest argv (i2 - 1) []))))"

section \<open>The namespace launcher (exec.cpp)\<close>

text \<open>
  \<^verbatim>\<open>exec_with_namespace\<close>: the helper's command line is built from the command, the
  namespace and the caller's \<^verbatim>\<open>environ\<close>, and the helper is run with an empty
  environment. \<^verbatim>\<open>do_execve\<close> throws when \<^verbatim>\<open>execve\<close> returns.
\<close>

definition helper_argv :: "string \<Rightarrow> string list \<Rightarrow> string list \<Rightarrow> string list \<Rightarrow> string list" where
  "helper_argv devname namespace_argv cmd_argv env =
     [WITH_NAMESPACE_DIR @ ''/exec_with_namespace''] @ cmd_argv @ [''--''] @ [devname]
       @ namespace_argv @ [''--''] @ env"

definition exec_with_namespace ::
  "libc \<Rightarrow> world \<Rightarrow> string \<Rightarrow> string list \<Rightarrow> string list \<Rightarrow> world \<times> unit outcome" where
  "exec_with_namespace L w devname namespace_argv cmd_argv =
     (let ns_argv = helper_argv devname namespace_argv cmd_argv (environ w);
          exec_name = hd ns_argv;
          (w1, r) = sys L w (Execve exec_name ns_argv [])
      in if ret r = 0 then (w1, Exec_done)
         else (w1, Throw (failure_fmt (''execve '' @ exec_name @ '' failed: ''
                                         @ strerror L (errno w1)))))"

section \<open>The supervisor: data (pipe.hpp)\<close>

text \<open>
  A \<^verbatim>\<open>file_spec_ptr\<close>: the address of the object, by which the program compares
  specifications, and the fields of the object, which are never assigned after
  construction.
\<close>

record file_spec =
  fs_addr :: nat
  m_filename :: string
  m_append :: bool

record daemon_proc_spec =
  m_forwardSignals :: bool
  m_cmdArgv :: "string list"
  m_stdin :: "file_spec option"
  m_stdout :: "file_spec option"
  m_stderr :: "file_spec option"
  m_pid :: int
  m_exited :: bool
  m_status :: int

definition resetStatus :: "daemon_proc_spec \<Rightarrow> daemon_proc_spec" where
  "resetStatus p = p\<lparr>m_pid := - 1, m_exited := False, m_status := 0\<rparr>"

definition started :: "daemon_proc_spec \<Rightarrow> bool" where
  "started p = (m_pid p \<noteq> - 1)"

definition running :: "daemon_proc_spec \<Rightarrow> bool" where
  "running p = (m_pid p \<noteq> - 1 \<and> \<not> m_exited p)"

definition finished :: "daemon_proc_spec \<Rightarrow> bool" where
  "finished p = (started p \<and> \<not> running p)"

text \<open>
  \<^verbatim>\<open>daemon_pipe::File\<close>. A side is a shared pointer to an \<^verbatim>\<open>FD\<close> object: the address of
  the object, or \<open>None\<close> for the null pointer.
\<close>

record File =
  m_spec :: file_spec
  File_m_append :: bool
  m_wantRead :: bool
  m_wantWrite :: bool
  m_readSide :: "nat option"
  m_writeSide :: "nat option"

definition File_new :: "file_spec \<Rightarrow> File" where
  "File_new spec =
     \<lparr>m_spec = spec, File_m_append = m_append spec, m_wantRead = False, m_wantWrite = False,
      m_readSide = None, m_writeSide = None\<rparr>"

record SignalBlocker =
  m_sigset :: "int set"
  m_oldset :: "int set"
  m_oldHUPAction :: sigaction

text \<open>
  \<^verbatim>\<open>daemon_pipe::Proc\<close>. \<open>Proc_m_spec\<close> is the address of the \<^verbatim>\<open>daemon_proc_spec\<close>; a
  \<^verbatim>\<open>File*\<close> is the position of the \<^verbatim>\<open>File\<close> among the files of the invocation.
\<close>

record Proc =
  Proc_m_spec :: nat
  Proc_m_stdin :: "nat option"
  Proc_m_stdout :: "nat option"
  Proc_m_stderr :: "nat option"
  m_newPGID :: int
  m_blockedSignals :: "SignalBlocker option"

definition Proc_new :: "nat \<Rightarrow> Proc" where
  "Proc_new spec =
     \<lparr>Proc_m_spec = spec, Proc_m_stdin = None, Proc_m_stdout = None, Proc_m_stderr = None,
      m_newPGID = - 1, m_blockedSignals = None\<rparr>"

record daemon_pipe =
  m_lockFile :: string
  m_specs :: "nat list"

text \<open>
  The memory of the supervising process on top of its \<open>world\<close>: the
  \<^verbatim>\<open>daemon_proc_spec\<close> objects by address, the \<^verbatim>\<open>FD\<close> objects by address (their
  \<^verbatim>\<open>m_fd\<close>) with the number allocated so far, the \<^verbatim>\<open>File\<close> objects of the invocation,
  and the harvester's \<^verbatim>\<open>m_procs\<close>.
\<close>

record pstate = world +
  specs :: "nat \<Rightarrow> daemon_proc_spec"
  fds :: "nat \<Rightarrow> int"
  fd_count :: nat
  files :: "File list"
  procs :: "Proc list"

text \<open>Sequencing of steps that may throw, and of steps that may also end the process.\<close>

definition thenE :: "'s \<times> (failure + 'a) \<Rightarrow> ('s \<Rightarrow> 'a \<Rightarrow> 's \<times> (failure + 'b)) \<Rightarrow> 's \<times> (failure + 'b)" where
  "thenE m f = (case m of (s, Inl e) \<Rightarrow> (s, Inl e) | (s, Inr a) \<Rightarrow> f s a)"

definition thenO :: "'s \<times> 'a outcome \<Rightarrow> ('s \<Rightarrow> 'a \<Rightarrow> 's \<times> 'b outcome) \<Rightarrow> 's \<times> 'b outcome" where
  "thenO m f =
     (case m of
        (s, Ok a) \<Rightarrow> f s a
      | (s, Throw e) \<Rightarrow> (s, Throw e)
      | (s, Exit n) \<Rightarrow> (s, Exit n)
      | (s, Exec_done) \<Rightarrow> (s, Exec_done)
      | (s, Crash) \<Rightarrow> (s, Crash)
      | (s, Aborted) \<Rightarrow> (s, Aborted))"

definition liftE :: "'s \<times> (failure + 'a) \<Rightarrow> 's \<times> 'a outcome" where
  "liftE m = (case m of (s, Inl e) \<Rightarrow> (s, Throw e) | (s, Inr a) \<Rightarrow> (s, Ok a))"

section \<open>The supervisor: descriptors (pipe.cpp)\<close>

function writeN :: "libc \<Rightarrow> 'a world_scheme \<Rightarrow> int \<Rightarrow> string \<Rightarrow> 'a world_scheme \<times> int" where
  "writeN L w fd buf =
     (if length buf > 0
      then (let (w1, r) = sys L w (Write fd buf);
                s = ret r
            in if s \<le> 0 then (w1, s) else writeN L w1 fd (drop (nat s) buf))
      else (w, 0))"
  by pat_completeness auto
termination
  by (relation "measure (\<lambda>(L, w, fd, buf). length buf)") auto

text \<open>\<^verbatim>\<open>new FD\<close>, or the declaration of an \<^verbatim>\<open>FD\<close>: a fresh object with \<^verbatim>\<open>m_fd = -1\<close>.\<close>

definition FD_new :: "pstate \<Rightarrow> pstate \<times> nat" where
  "FD_new s = (s\<lparr>fds := (fds s)(fd_count s := - 1), fd_count := fd_count s + 1\<rparr>, fd_count s)"

definition FD_isOk :: "pstate \<Rightarrow> nat \<Rightarrow> bool" where
  "FD_isOk s a = (fds s a \<noteq> - 1)"

definition FD_get :: "pstate \<Rightarrow> nat \<Rightarrow> failure + int" where
  "FD_get s a = (if \<not> FD_isOk s a then Inl (failure_fmt ''FD::get: invalid fd'') else Inr (fds s a))"

definition FD_reset :: "libc \<Rightarrow> pstate \<Rightarrow> nat \<Rightarrow> int \<Rightarrow> pstate \<times> (failure + unit)" where
  "FD_reset L s a newFD =
     (if fds s a \<noteq> - 1
      then (let (s1, r) = sys L s (Close (fds s a))
            in if ret r = 0 then (s1\<lparr>fds := (fds s1)(a := newFD)\<rparr>, Inr ())
               else (s1, Inl (failure_fmt (''close failed: '' @ strerror L (errno s1)))))
      else (s\<lparr>fds := (fds s)(a := newFD)\<rparr>, Inr ()))"

text \<open>\<^verbatim>\<open>FD::~FD() { try { reset(); } catch(...) {} }\<close>\<close>

definition FD_dtor :: "libc \<Rightarrow> pstate \<Rightarrow> nat \<Rightarrow> pstate" where
  "FD_dtor L s a = fst (FD_reset L s a (- 1))"

definition FD_setCloseOnExec :: "libc \<Rightarrow> pstate \<Rightarrow> nat \<Rightarrow> pstate \<times> (failure + unit)" where
  "FD_setCloseOnExec L s a =
     (let (s1, r) = sys L s (Fcntl (fds s a) F_GETFD 0);
          fdflags = ret r
      in if \<not> fdflags \<ge> 0
         then (s1, Inl (failure_fmt (''fcntl(F_GETFD) failed: '' @ strerror L (errno s1))))
         else (let (s2, r2) = sys L s1 (Fcntl (fds s1 a) F_SETFD (fdflags OR FD_CLOEXEC))
               in if \<not> ret r2 \<ge> 0
                  then (s2, Inl (failure_fmt (''fcntl(F_SETFD) failed: '' @ strerror L (errno s2))))
                  else (s2, Inr ())))"

definition FD_setNonBlock :: "libc \<Rightarrow> pstate \<Rightarrow> nat \<Rightarrow> pstate \<times> (failure + unit)" where
  "FD_setNonBlock L s a =
     (let (s1, r) = sys L s (Fcntl (fds s a) F_GETFL 0);
          flags = ret r
      in if \<not> flags \<ge> 0
         then (s1, Inl (failure_fmt (''fcntl(F_GETFL) failed: '' @ strerror L (errno s1))))
         else (let (s2, r2) = sys L s1 (Fcntl (fds s1 a) F_SETFL (flags OR O_NONBLOCK))
               in if \<not> ret r2 \<ge> 0
                  then (s2, Inl (failure_fmt (''fcntl(F_SETFL) failed: '' @ strerror L (errno s2))))
                  else (s2, Inr ())))"

definition FD_pipe :: "libc \<Rightarrow> pstate \<Rightarrow> nat \<Rightarrow> nat \<Rightarrow> int \<Rightarrow> pstate \<times> (failure + unit)" where
  "FD_pipe L s readFD writeFD fdflags =
     (let (s1, r) = sys L s Pipe
      in if ret r \<noteq> 0 then (s1, Inl (failure_fmt ''pipe failed''))
         else
           thenE (FD_reset L s1 readFD (out1 r)) (\<lambda>s2 u.
           thenE (FD_reset L s2 writeFD (out2 r)) (\<lambda>s3 u.
             if fdflags = FD_CLOEXEC
             then thenE (FD_setCloseOnExec L s3 readFD) (\<lambda>s4 u. FD_setCloseOnExec L s4 writeFD)
             else if fdflags \<noteq> 0
             then (s3, Inl (failure_fmt (''FD::pipe: unrecognized fdflags '' @ show_int fdflags)))
             else (s3, Inr ()))))"

section \<open>The supervisor: endpoints\<close>

text \<open>
  \<^verbatim>\<open>FileMap::get\<close>: the first \<^verbatim>\<open>File\<close> whose specification is the same object, or a new
  \<^verbatim>\<open>File\<close> at the end; the wanted directions are accumulated.
\<close>

fun find_file :: "File list \<Rightarrow> file_spec \<Rightarrow> nat \<Rightarrow> nat option" where
  "find_file [] spec k = None"
| "find_file (f # fs) spec k =
     (if fs_addr (m_spec f) = fs_addr spec then Some k else find_file fs spec (k + 1))"

definition FileMap_get :: "pstate \<Rightarrow> file_spec \<Rightarrow> bool \<Rightarrow> bool \<Rightarrow> pstate \<times> nat" where
  "FileMap_get s spec wantRead wantWrite =
     (let (fs, i) = (case find_file (files s) spec 0 of
                       Some i \<Rightarrow> (files s, i)
                     | None \<Rightarrow> (files s @ [File_new spec], length (files s)));
          f = fs ! i
      in (s\<lparr>files := fs[i := f\<lparr>m_wantRead := (m_wantRead f \<or> wantRead),
                                m_wantWrite := (m_wantWrite f \<or> wantWrite)\<rparr>]\<rparr>, i))"

text \<open>The flags \<^verbatim>\<open>File::open\<close> computes for a named path.\<close>

definition open_mode :: "bool \<Rightarrow> bool \<Rightarrow> bool \<Rightarrow> int" where
  "open_mode wantRead wantWrite appendFlag =
     (let mode = 0;
          mode = (if wantRead then mode OR O_RDONLY else mode);
          mode = (if wantWrite
                  then (let mode = mode OR (O_CREAT OR O_WRONLY)
                        in if appendFlag then mode OR O_APPEND else mode)
                  else mode)
      in mode)"

text \<open>
  The end of the scope of the local \<^verbatim>\<open>FDPtr fd\<close> of \<^verbatim>\<open>File::open\<close>: the object is
  destroyed unless a side of the \<^verbatim>\<open>File\<close> shares it.
\<close>

definition release_local :: "libc \<Rightarrow> pstate \<Rightarrow> nat \<Rightarrow> nat \<Rightarrow> pstate" where
  "release_local L s i fd =
     (let f = files s ! i
      in if m_readSide f = Some fd \<or> m_writeSide f = Some fd then s else FD_dtor L s fd)"

text \<open>One of the three branches of \<^verbatim>\<open>File::open\<close> that duplicate a standard descriptor.\<close>

definition open_std ::
  "libc \<Rightarrow> pstate \<Rightarrow> nat \<Rightarrow> nat \<Rightarrow> bool \<Rightarrow> string \<Rightarrow> int \<Rightarrow> string \<Rightarrow> bool \<Rightarrow> pstate \<times> (failure + unit)" where
  "open_std L s i fd forbidden complaint std_fd std_name as_read =
     (if forbidden then (s, Inl (failure_fmt complaint))
      else (let (s1, r) = sys L s (Dup std_fd)
            in thenE (FD_reset L s1 fd (ret r)) (\<lambda>s2 u.
                 if \<not> FD_isOk s2 fd
                 then (s2, Inl (failure_fmt (''dup('' @ std_name @ '') failed: ''
                                              @ strerror L (errno s2))))
                 else (s2\<lparr>files := (files s2)[i :=
                          (if as_read then (files s2 ! i)\<lparr>m_readSide := Some fd\<rparr>
                           else (files s2 ! i)\<lparr>m_writeSide := Some fd\<rparr>)]\<rparr>, Inr ()))))"

text \<open>
  \<^verbatim>\<open>File::open\<close> of the \<^verbatim>\<open>File\<close> at position \<open>i\<close>. Both sides are null before the call
  (it is made once for each \<^verbatim>\<open>File\<close>).
\<close>

definition File_open :: "libc \<Rightarrow> pstate \<Rightarrow> nat \<Rightarrow> pstate \<times> (failure + unit)" where
  "File_open L s i =
     (let f = files s ! i;
          name = m_filename (m_spec f)
      in if name = []
         then (let (s1, rd) = FD_new s;
                   (s2, wr) = FD_new s1;
                   s3 = s2\<lparr>files := (files s2)[i := f\<lparr>m_readSide := Some rd, m_writeSide := Some wr\<rparr>]\<rparr>
               in FD_pipe L s3 rd wr FD_CLOEXEC)
         else
           (let (s1, fd) = FD_new s;
                opened =
                  (if name = ''/dev/stdin''
                   then open_std L s1 i fd (m_wantWrite f)
                          ''caller_stdin cannot be used for writing'' STDIN_FILENO ''STDIN_FILENO'' True
                   else if name = ''/dev/stdout''
                   then open_std L s1 i fd (m_wantRead f)
                          ''caller_stdout cannot be used for reading'' STDOUT_FILENO ''STDOUT_FILENO'' False
                   else if name = ''/dev/stderr''
                   then open_std L s1 i fd (m_wantRead f)
                          ''caller_stderr cannot be used for reading'' STDERR_FILENO ''STDERR_FILENO'' False
                   else
                     (let mode = open_mode (m_wantRead f) (m_wantWrite f) (File_m_append f);
                          f1 = (if m_wantRead f then f\<lparr>m_readSide := Some fd\<rparr> else f);
                          f2 = (if m_wantWrite f then f1\<lparr>m_writeSide := Some fd\<rparr> else f1);
                          s2 = s1\<lparr>files := (files s1)[i := f2]\<rparr>;
                          (s3, r) = sys L s2 (Open name mode 438)
                      in thenE (FD_reset L s3 fd (ret r)) (\<lambda>s4 u.
                           if \<not> FD_isOk s4 fd
                           then (s4, Inl (failure_fmt (''open '' @ name @ '' failed: ''
                                                        @ strerror L (errno s4))))
                           else (s4, Inr ()))))
            in case opened of
                 (s5, Inl e) \<Rightarrow> (release_local L s5 i fd, Inl e)
               | (s5, Inr u) \<Rightarrow>
                   (case FD_setCloseOnExec L s5 fd of
                      (s6, res) \<Rightarrow> (release_local L s6 i fd, res))))"

text \<open>\<^verbatim>\<open>~File\<close>: the write side is released, then the read side.\<close>

definition File_dtor :: "libc \<Rightarrow> pstate \<Rightarrow> File \<Rightarrow> pstate" where
  "File_dtor L s f =
     (let s1 = (case m_writeSide f of
                  None \<Rightarrow> s
                | Some b \<Rightarrow> if m_readSide f = Some b then s else FD_dtor L s b)
      in case m_readSide f of None \<Rightarrow> s1 | Some a \<Rightarrow> FD_dtor L s1 a)"

section \<open>The supervisor: signals\<close>

text \<open>\<^verbatim>\<open>CHECK(sigaddset(&m_sigset, SIG...) == 0, ...)\<close>, one signal after the other.\<close>

fun add_signals :: "libc \<Rightarrow> pstate \<Rightarrow> int set \<Rightarrow> int list \<Rightarrow> pstate \<times> (failure + int set)" where
  "add_signals L s sigset [] = (s, Inr sigset)"
| "add_signals L s sigset (sig # sigs) =
     (let (s1, r) = sys L s (Sigaddset sig)
      in if ret r \<noteq> 0
         then (s1, Inl (failure_fmt (''sigaddset failed: '' @ strerror L (errno s1))))
         else add_signals L s1 (insert sig sigset) sigs)"

definition SignalBlocker_ctor :: "libc \<Rightarrow> pstate \<Rightarrow> pstate \<times> (failure + SignalBlocker)" where
  "SignalBlocker_ctor L s =
     (let (s1, r) = sys L s Sigemptyset
      in if ret r \<noteq> 0
         then (s1, Inl (failure_fmt (''sigemptyset failed: '' @ strerror L (errno s1))))
         else
           thenE (add_signals L s1 {} [SIGCHLD, SIGHUP, SIGTERM, SIGINT, SIGQUIT, SIGPIPE])
             (\<lambda>s2 sigset.
                (let action = \<lparr>sa_handler = SIG_IGN, sa_mask = {}, sa_flags = 0\<rparr>;
                     (s3, rc, oldHUP) = sys_sigaction L s2 SIGHUP action
                 in if rc \<noteq> 0
                    then (s3, Inl (failure_fmt (''sigaction failed: '' @ strerror L (errno s3))))
                    else (let (s4, rc2, oldset) = sys_sigprocmask L s3 SIG_BLOCK sigset
                          in if rc2 \<noteq> 0
                             then (s4, Inl (failure_fmt (''sigprocmask failed: ''
                                                          @ strerror L (errno s4))))
                             else (s4, Inr \<lparr>m_sigset = sigset, m_oldset = oldset,
                                             m_oldHUPAction = oldHUP\<rparr>)))))"

text \<open>
  \<^verbatim>\<open>SignalBlocker::unblock\<close> and the destructor; \<open>uncaught\<close> is
  \<^verbatim>\<open>std::uncaught_exception()\<close>.
\<close>

definition unblock :: "libc \<Rightarrow> pstate \<Rightarrow> SignalBlocker \<Rightarrow> bool \<Rightarrow> pstate \<times> (failure + unit)" where
  "unblock L s sb uncaught =
     (let (s1, rc, old) = sys_sigprocmask L s SIG_SETMASK (m_oldset sb)
      in if rc \<noteq> 0 \<and> \<not> uncaught
         then (s1, Inl (failure_fmt (''sigprocmask failed: '' @ strerror L (errno s1))))
         else (s1, Inr ()))"

definition SignalBlocker_dtor ::
  "libc \<Rightarrow> pstate \<Rightarrow> SignalBlocker \<Rightarrow> bool \<Rightarrow> pstate \<times> (failure + unit)" where
  "SignalBlocker_dtor L s sb uncaught =
     thenE (unblock L s sb uncaught) (\<lambda>s1 u.
       (let (s2, rc, old) = sys_sigaction L s1 SIGHUP (m_oldHUPAction sb)
        in if rc = - 1 \<and> \<not> uncaught
           then (s2, Inl (failure_fmt (''sigaction failed: '' @ strerror L (errno s2))))
           else (s2, Inr ())))"

section \<open>The supervisor: fork and exec\<close>

text \<open>
  In the child: \<^verbatim>\<open>CHECK(dup2(file->side->get(), target) >= 0, ...)\<close> when the \<^verbatim>\<open>Proc\<close>
  has the \<^verbatim>\<open>File\<close>. A null side is dereferenced.
\<close>

definition child_dup2 ::
  "libc \<Rightarrow> pstate \<Rightarrow> nat option \<Rightarrow> bool \<Rightarrow> int \<Rightarrow> pstate \<times> unit outcome" where
  "child_dup2 L s file as_read target =
     (case file of
        None \<Rightarrow> (s, Ok ())
      | Some i \<Rightarrow>
          (case (if as_read then m_readSide (files s ! i) else m_writeSide (files s ! i)) of
             None \<Rightarrow> (s, Crash)
           | Some a \<Rightarrow>
               (case FD_get s a of
                  Inl e \<Rightarrow> (s, Throw e)
                | Inr fd \<Rightarrow>
                    (let (s1, r) = sys L s (Dup2 fd target)
                     in if \<not> ret r \<ge> 0
                        then (s1, Throw (failure_fmt (''dup2 failed: '' @ strerror L (errno s1))))
                        else (s1, Ok ())))))"

text \<open>
  The inner \<^verbatim>\<open>try\<close> block of the child. \<^verbatim>\<open>do_execvp\<close>: an \<^verbatim>\<open>execvp\<close> that succeeds
  (answer 0) does not return, one that returns throws.
\<close>

definition child_try :: "libc \<Rightarrow> pstate \<Rightarrow> Proc \<Rightarrow> pstate \<times> unit outcome" where
  "child_try L s p =
     thenO (if m_newPGID p \<ge> 0
            then (let (s1, r) = sys L s (Setpgid 0 (m_newPGID p))
                  in if ret r \<noteq> 0
                     then (s1, Throw (failure_fmt (''setpgid failed: '' @ strerror L (errno s1))))
                     else (s1, Ok ()))
            else (s, Ok ())) (\<lambda>s1 u.
     thenO (child_dup2 L s1 (Proc_m_stdin p) True STDIN_FILENO) (\<lambda>s2 u.
     thenO (child_dup2 L s2 (Proc_m_stdout p) False STDOUT_FILENO) (\<lambda>s3 u.
     thenO (child_dup2 L s3 (Proc_m_stderr p) False STDERR_FILENO) (\<lambda>s4 u.
     thenO (case m_blockedSignals p of
              None \<Rightarrow> (s4, Ok ())
            | Some sb \<Rightarrow> liftE (unblock L s4 sb False)) (\<lambda>s5 u.
       (let argv = m_cmdArgv (specs s5 (Proc_m_spec p));
            exec_name = hd argv;
            (s6, r) = sys L s5 (Execvp exec_name argv (environ s5))
        in if ret r = 0 then (s6, Exec_done)
           else (s6, Throw (failure_fmt (''execvp '' @ exec_name @ '' failed: ''
                                           @ strerror L (errno s6))))))))))"

text \<open>
  The child after \<^verbatim>\<open>fork\<close>: a failure of the inner block is written to the error pipe,
  and the child ends in \<^verbatim>\<open>_exit(1)\<close>. \<^verbatim>\<open>strlen\<close> of a message without terminator is
  undefined.
\<close>

definition child_branch :: "libc \<Rightarrow> pstate \<Rightarrow> Proc \<Rightarrow> nat \<Rightarrow> pstate \<times> int outcome" where
  "child_branch L s p errorPipeWrite =
     (case child_try L s p of
        (s1, Throw e) \<Rightarrow>
          (case FD_get s1 errorPipeWrite of
             Inl e2 \<Rightarrow> (s1, Throw e2)
           | Inr fd \<Rightarrow>
               (case what e of
                  None \<Rightarrow> (s1, Crash)
                | Some msg \<Rightarrow> (fst (sys L s1 (Write fd msg)), Exit 1)))
      | (s1, Ok u) \<Rightarrow> (s1, Exit 1)
      | (s1, Exit n) \<Rightarrow> (s1, Exit n)
      | (s1, Exec_done) \<Rightarrow> (s1, Exec_done)
      | (s1, Crash) \<Rightarrow> (s1, Crash)
      | (s1, Aborted) \<Rightarrow> (s1, Aborted))"

text \<open>
  The parent after \<^verbatim>\<open>fork\<close>, inside the outer \<^verbatim>\<open>try\<close>: the write side of the error pipe
  is closed, the read side is read into the buffer of a default-constructed failure,
  which is thrown when bytes arrived; otherwise the pid is stored in the
  \<^verbatim>\<open>daemon_proc_spec\<close>.
\<close>

definition parent_branch ::
  "libc \<Rightarrow> pstate \<Rightarrow> Proc \<Rightarrow> nat \<Rightarrow> nat \<Rightarrow> int \<Rightarrow> pstate \<times> (failure + int)" where
  "parent_branch L s p errorPipeRead errorPipeWrite pid =
     thenE (FD_reset L s errorPipeWrite (- 1)) (\<lambda>s1 u.
       (let f = failure_default
        in case FD_get s1 errorPipeRead of
             Inl e \<Rightarrow> (s1, Inl e)
           | Inr fd \<Rightarrow>
               (let (s2, n, data) = sys_read L s1 fd 256
                in if \<not> n \<ge> 0
                   then (s2, Inl (failure_fmt (''read from error pipe failed: ''
                                                @ strerror L (errno s2))))
                   else if n > 0
                   then (s2, Inl (f\<lparr>m_err := map Some data @ drop (length data) (m_err f)\<rparr>))
                   else (s2\<lparr>specs := (specs s2)(Proc_m_spec p :=
                               (specs s2 (Proc_m_spec p))\<lparr>m_pid := pid\<rparr>)\<rparr>, Inr pid))))"

text \<open>
  The outer \<^verbatim>\<open>try\<close> block of \<^verbatim>\<open>safe_fork_exec\<close> with its handler
  \<^verbatim>\<open>catch(...) { kill(pid, SIGTERM); waitpid(pid, NULL, 0); throw; }\<close>
\<close>

definition after_fork ::
  "libc \<Rightarrow> pstate \<Rightarrow> Proc \<Rightarrow> nat \<Rightarrow> nat \<Rightarrow> int \<Rightarrow> pstate \<times> int outcome" where
  "after_fork L s p errorPipeRead errorPipeWrite pid =
     (case (if pid = 0 then child_branch L s p errorPipeWrite
            else liftE (parent_branch L s p errorPipeRead errorPipeWrite pid)) of
        (s1, Throw e) \<Rightarrow>
          (let s2 = fst (sys L s1 (Kill pid SIGTERM));
               s3 = fst (sys L s2 (Waitpid pid 0))
           in (s3, Throw e))
      | (s1, other) \<Rightarrow> (s1, other))"

text \<open>
  \<^verbatim>\<open>Proc::safe_fork_exec\<close> of the \<^verbatim>\<open>Proc\<close> at position \<open>i\<close> of \<^verbatim>\<open>m_procs\<close>. The two
  descriptors of the error pipe are destroyed when the function returns or throws, the
  write side first.
\<close>

definition safe_fork_exec :: "libc \<Rightarrow> pstate \<Rightarrow> nat \<Rightarrow> pstate \<times> int outcome" where
  "safe_fork_exec L s i =
     (let p = procs s ! i
      in if m_cmdArgv (specs s (Proc_m_spec p)) = []
         then (s, Throw (failure_fmt ''cmd_argv is empty''))
         else
           (let (s1, errorPipeRead) = FD_new s;
                (s2, errorPipeWrite) = FD_new s1;
                leave = (\<lambda>s. FD_dtor L (FD_dtor L s errorPipeWrite) errorPipeRead)
            in case thenE (FD_pipe L s2 errorPipeRead errorPipeWrite FD_CLOEXEC)
                      (\<lambda>s3 u. FD_setNonBlock L s3 errorPipeWrite) of
                 (s4, Inl e) \<Rightarrow> (leave s4, Throw e)
               | (s4, Inr u) \<Rightarrow>
                   (let (s5, r) = sys L s4 Fork;
                        pid = ret r
                    in if \<not> pid \<ge> 0
                       then (leave s5, Throw (failure_fmt (''fork failed: ''
                                                            @ strerror L (errno s5))))
                       else
                         (case after_fork L s5 p errorPipeRead errorPipeWrite pid of
                            (s6, Throw e) \<Rightarrow> (leave s6, Throw e)
                          | (s6, Ok v) \<Rightarrow> (leave s6, Ok v)
                          | (s6, other) \<Rightarrow> (s6, other)))))"

section \<open>The supervisor: harvesting\<close>

definition addProc :: "pstate \<Rightarrow> nat \<Rightarrow> pstate" where
  "addProc s spec =
     s\<lparr>specs := (specs s)(spec := resetStatus (specs s spec)),
       procs := procs s @ [Proc_new spec]\<rparr>"

text \<open>
  The first loop of \<^verbatim>\<open>harvest\<close>, over the processes that remain to be visited; the
  result is \<^verbatim>\<open>somethingleft\<close>.
\<close>

fun harvest_scan :: "libc \<Rightarrow> pstate \<Rightarrow> Proc list \<Rightarrow> bool \<Rightarrow> pstate \<times> (failure + bool)" where
  "harvest_scan L s [] somethingleft = (s, Inr somethingleft)"
| "harvest_scan L s (p # ps) somethingleft =
     (if \<not> running (specs s (Proc_m_spec p)) then harvest_scan L s ps somethingleft
      else (let (s1, r) = sys L s (Waitpid (m_pid (specs s (Proc_m_spec p))) WNOHANG)
            in if \<not> ret r \<ge> 0
               then (s1, Inl (failure_fmt (''waitpid failed: '' @ strerror L (errno s1))))
               else if ret r > 0
               then harvest_scan L
                      (s1\<lparr>specs := (specs s1)(Proc_m_spec p :=
                            (specs s1 (Proc_m_spec p))\<lparr>m_exited := True, m_status := out1 r\<rparr>)\<rparr>)
                      ps somethingleft
               else harvest_scan L s1 ps True))"

text \<open>The loop that forwards a signal.\<close>

fun forward_signal :: "libc \<Rightarrow> pstate \<Rightarrow> Proc list \<Rightarrow> int \<Rightarrow> pstate \<times> (failure + unit)" where
  "forward_signal L s [] sig = (s, Inr ())"
| "forward_signal L s (p # ps) sig =
     (let spec = specs s (Proc_m_spec p)
      in if running spec \<and> m_forwardSignals spec
         then (let (s1, r) = sys L s (Kill (m_pid spec) sig)
               in if ret r \<noteq> 0
                  then (s1, Inl (failure_fmt (''kill pid='' @ show_int (m_pid spec) @ '' sig=''
                                   @ show_int sig @ '' failed: '' @ strerror L (errno s1))))
                  else forward_signal L s1 ps sig)
         else forward_signal L s ps sig)"

text \<open>The \<^verbatim>\<open>switch\<close> of \<^verbatim>\<open>harvest\<close> on the signal that \<^verbatim>\<open>sigwait\<close> delivered.\<close>

definition dispatch :: "libc \<Rightarrow> pstate \<Rightarrow> int \<Rightarrow> pstate \<times> (failure + unit)" where
  "dispatch L s sig =
     (if sig = SIGTERM \<or> sig = SIGINT \<or> sig = SIGQUIT then forward_signal L s (procs s) sig
      else (s, Inr ()))"

text \<open>
  \<^verbatim>\<open>ProcHarvester::harvest\<close>. The loop has no bound of its own: the first argument
  limits the number of rounds, and \<open>None\<close> says that they did not suffice.
\<close>

fun harvest :: "nat \<Rightarrow> libc \<Rightarrow> pstate \<Rightarrow> int set \<Rightarrow> (pstate \<times> (failure + unit)) option" where
  "harvest 0 L s sigset = None"
| "harvest (Suc n) L s sigset =
     (case harvest_scan L s (procs s) False of
        (s1, Inl e) \<Rightarrow> Some (s1, Inl e)
      | (s1, Inr somethingleft) \<Rightarrow>
          if \<not> somethingleft then Some (s1, Inr ())
          else (let (s2, r) = sys L s1 (Sigwait sigset)
                in if ret r \<noteq> 0
                   then Some (s2, Inl (failure_fmt (''sigwait failed: '' @ strerror L (errno s2))))
                   else (case dispatch L s2 (out1 r) of
                           (s3, Inl e) \<Rightarrow> Some (s3, Inl e)
                         | (s3, Inr u) \<Rightarrow> harvest n L s3 sigset)))"

text \<open>\<^verbatim>\<open>~ProcHarvester\<close>: \<^verbatim>\<open>try { harvest(); } catch(...) {}  m_procs.clear();\<close>\<close>

definition ProcHarvester_dtor :: "nat \<Rightarrow> libc \<Rightarrow> pstate \<Rightarrow> int set \<Rightarrow> pstate option" where
  "ProcHarvester_dtor fuel L s sigset =
     (case harvest fuel L s sigset of
        None \<Rightarrow> None
      | Some (s1, res) \<Rightarrow> Some (s1\<lparr>procs := []\<rparr>))"

section \<open>The supervisor: the lock file\<close>

text \<open>\<^verbatim>\<open>LockFile::open\<close>; \<open>lk\<close> is the address of the member \<^verbatim>\<open>m_fd\<close>.\<close>

definition LockFile_open :: "libc \<Rightarrow> pstate \<Rightarrow> nat \<Rightarrow> string \<Rightarrow> pstate \<times> (failure + unit)" where
  "LockFile_open L s lk file =
     (let (s1, r) = sys L s (Open file (O_CREAT OR O_RDWR) 438)
      in thenE (FD_reset L s1 lk (ret r)) (\<lambda>s2 u.
           if \<not> FD_isOk s2 lk
           then (s2, Inl (failure_fmt (''unable to open pidfile '' @ file @ '' for writing: ''
                                        @ strerror L (errno s2))))
           else
             thenE (FD_setCloseOnExec L s2 lk) (\<lambda>s3 u.
               (let (s4, r4) = sys L s3 (Flock (fds s3 lk) (LOCK_EX OR LOCK_NB))
                in if ret r4 \<noteq> 0
                   then thenE (FD_reset L s4 lk (- 1)) (\<lambda>s5 u.
                          if errno s5 = EWOULDBLOCK
                          then (s5, Inl (failure_fmt (''process is already running (pidfile ''
                                                       @ file @ '' is locked)'')))
                          else (s5, Inl (failure_fmt (''unable to lock pidfile '' @ file))))
                   else
                     (let (s5, r5) = sys L s4 (Ftruncate (fds s4 lk) 0)
                      in if ret r5 \<noteq> 0
                         then (s5, Inl (failure_fmt (''unable to truncate lockfile '' @ file
                                                      @ '': '' @ strerror L (errno s5))))
                         else
                           (let (s6, r6) = sys L s5 Getpid;
                                buf = show_int (ret r6) @ [NL];
                                (s7, rc) = writeN L s6 (fds s6 lk) buf
                            in if rc \<noteq> 0
                               then (s7, Inl (failure_fmt (''unable to write to lockfile '' @ file
                                                            @ '': '' @ strerror L (errno s7))))
                               else (s7, Inr ())))))))"

text \<open>
  \<^verbatim>\<open>~LockFile\<close>. When the body throws, the member \<^verbatim>\<open>m_fd\<close> is still destroyed.
\<close>

definition LockFile_dtor :: "libc \<Rightarrow> pstate \<Rightarrow> nat \<Rightarrow> pstate \<times> (failure + unit)" where
  "LockFile_dtor L s lk =
     (if FD_isOk s lk
      then (let s1 = fst (sys L s (Ftruncate (fds s lk) 0))
            in case FD_reset L s1 lk (- 1) of
                 (s2, Inl e) \<Rightarrow> (FD_dtor L s2 lk, Inl e)
               | (s2, Inr u) \<Rightarrow> (s2, Inr ()))
      else (s, Inr ()))"

section \<open>The supervisor: running a pipeline\<close>

text \<open>
  The first loop of \<^verbatim>\<open>daemon_pipe::exec\<close>: every specification gets its \<^verbatim>\<open>Proc\<close>, and
  its endpoints are looked up in the \<^verbatim>\<open>FileMap\<close>.
\<close>

definition wire_one :: "pstate \<Rightarrow> nat \<Rightarrow> pstate" where
  "wire_one s spec =
     (let s1 = addProc s spec;
          k = length (procs s1) - 1;
          s2 = (case m_stdin (specs s1 spec) of
                  None \<Rightarrow> s1
                | Some e \<Rightarrow>
                    (let (s', fi) = FileMap_get s1 e True False
                     in s'\<lparr>procs := (procs s')[k := (procs s' ! k)\<lparr>Proc_m_stdin := Some fi\<rparr>]\<rparr>));
          s3 = (case m_stdout (specs s2 spec) of
                  None \<Rightarrow> s2
                | Some e \<Rightarrow>
                    (let (s', fi) = FileMap_get s2 e False True
                     in s'\<lparr>procs := (procs s')[k := (procs s' ! k)\<lparr>Proc_m_stdout := Some fi\<rparr>]\<rparr>))
      in case m_stderr (specs s3 spec) of
           None \<Rightarrow> s3
         | Some e \<Rightarrow>
             (let (s', fi) = FileMap_get s3 e False True
              in s'\<lparr>procs := (procs s')[k := (procs s' ! k)\<lparr>Proc_m_stderr := Some fi\<rparr>]\<rparr>))"

fun wire :: "pstate \<Rightarrow> nat list \<Rightarrow> pstate" where
  "wire s [] = s"
| "wire s (spec # rest) = wire (wire_one s spec) rest"

text \<open>The loop that opens the files, over their positions.\<close>

fun open_all :: "libc \<Rightarrow> pstate \<Rightarrow> nat list \<Rightarrow> pstate \<times> (failure + unit)" where
  "open_all L s [] = (s, Inr ())"
| "open_all L s (i # rest) = thenE (File_open L s i) (\<lambda>s1 u. open_all L s1 rest)"

text \<open>The loop that forks the processes, over their positions; \<open>pgid\<close> is the local.\<close>

fun fork_all :: "libc \<Rightarrow> pstate \<Rightarrow> SignalBlocker \<Rightarrow> nat list \<Rightarrow> int \<Rightarrow> pstate \<times> unit outcome" where
  "fork_all L s signals [] pgid = (s, Ok ())"
| "fork_all L s signals (i # rest) pgid =
     (let s1 = s\<lparr>procs := (procs s)[i :=
                  (procs s ! i)\<lparr>m_blockedSignals := Some signals, m_newPGID := pgid\<rparr>]\<rparr>
      in thenO (safe_fork_exec L s1 i)
           (\<lambda>s2 pid. fork_all L s2 signals rest (if pgid = 0 then pid else pgid)))"

text \<open>
  \<^verbatim>\<open>daemon_pipe::exec\<close> between the construction of its locals and the end of their
  scope; \<open>lock\<close> is the address of the descriptor of the \<^verbatim>\<open>LockFile\<close>.
\<close>

definition exec_body ::
  "libc \<Rightarrow> pstate \<Rightarrow> daemon_pipe \<Rightarrow> SignalBlocker \<Rightarrow> nat \<Rightarrow> pstate \<times> unit outcome" where
  "exec_body L s pipe signals lock =
     (let s1 = wire s (m_specs pipe)
      in thenO (if m_lockFile pipe \<noteq> [] then liftE (LockFile_open L s1 lock (m_lockFile pipe))
                else (s1, Ok ())) (\<lambda>s2 u.
         thenO (liftE (open_all L s2 [0 ..< length (files s2)])) (\<lambda>s3 u.
           fork_all L s3 signals [0 ..< length (procs s3)] 0)))"

text \<open>\<^verbatim>\<open>~FileMap\<close>: every \<^verbatim>\<open>File\<close> is deleted.\<close>

definition FileMap_dtor :: "libc \<Rightarrow> pstate \<Rightarrow> pstate" where
  "FileMap_dtor L s = (fold (\<lambda>f s. File_dtor L s f) (files s) s)\<lparr>files := []\<rparr>"

text \<open>
  The end of the scope of the locals of \<^verbatim>\<open>exec\<close>, in the reverse order of their
  construction: the files, the harvester, the lock, the signal blocker. \<open>thrown\<close> is
  the exception that leaves the body, if any. A destructor that throws while an
  exception is in flight ends the process; the rules are those of C++03, where a
  destructor may throw.
\<close>

definition exec_leave ::
  "nat \<Rightarrow> libc \<Rightarrow> pstate \<Rightarrow> SignalBlocker \<Rightarrow> nat \<Rightarrow> failure option
     \<Rightarrow> (pstate \<times> unit outcome) option" where
  "exec_leave fuel L s signals lock thrown =
     (case ProcHarvester_dtor fuel L (FileMap_dtor L s) (m_sigset signals) of
        None \<Rightarrow> None
      | Some s1 \<Rightarrow>
          (case LockFile_dtor L s1 lock of
             (s2, Inl e) \<Rightarrow>
               (case thrown of
                  Some e0 \<Rightarrow> Some (s2, Aborted)
                | None \<Rightarrow> Some (fst (SignalBlocker_dtor L s2 signals True), Throw e))
           | (s2, Inr u) \<Rightarrow>
               (case thrown of
                  Some e0 \<Rightarrow> Some (fst (SignalBlocker_dtor L s2 signals True), Throw e0)
                | None \<Rightarrow> Some (liftE (SignalBlocker_dtor L s2 signals False)))))"

text \<open>\<^verbatim>\<open>daemon_pipe::exec\<close>\<close>

definition daemon_pipe_exec ::
  "nat \<Rightarrow> libc \<Rightarrow> pstate \<Rightarrow> daemon_pipe \<Rightarrow> (pstate \<times> unit outcome) option" where
  "daemon_pipe_exec fuel L s pipe =
     (if m_specs pipe = [] then Some (s, Throw (failure_fmt ''no procs to execute''))
      else
        (case SignalBlocker_ctor L s of
           (s1, Inl e) \<Rightarrow> Some (s1, Throw e)
         | (s1, Inr signals) \<Rightarrow>
             (let (s2, lock) = FD_new s1;
                  s3 = s2\<lparr>procs := [], files := []\<rparr>
              in case exec_body L s3 pipe signals lock of
                   (s4, Ok u) \<Rightarrow> exec_leave fuel L s4 signals lock None
                 | (s4, Throw e) \<Rightarrow> exec_leave fuel L s4 signals lock (Some e)
                 | (s4, other) \<Rightarrow> Some (s4, other))))"

section \<open>The supervisor: try\_error\_write\<close>

text \<open>
  The inner block of \<^verbatim>\<open>try_error_write\<close>, from the construction of the harvester to
  the last statement. The \<^verbatim>\<open>File\<close> of the pipe is at position 0 and the \<^verbatim>\<open>Proc\<close> at
  position 0.
\<close>

definition feed_child ::
  "libc \<Rightarrow> pstate \<Rightarrow> nat \<Rightarrow> SignalBlocker \<Rightarrow> string \<Rightarrow> pstate \<times> unit outcome" where
  "feed_child L s procSpec signals input =
     (let pipe_spec = \<lparr>fs_addr = 0, m_filename = [], m_append = False\<rparr>;
          s1 = s\<lparr>procs := [], files := [File_new pipe_spec]\<rparr>
      in thenO (liftE (File_open L s1 0)) (\<lambda>s2 u.
         thenO (case m_writeSide (files s2 ! 0) of
                  None \<Rightarrow> (s2, Crash)
                | Some wr \<Rightarrow> liftE (FD_setNonBlock L s2 wr)) (\<lambda>s3 u.
           (let s4 = addProc s3 procSpec;
                s5 = s4\<lparr>procs := (procs s4)[0 := (procs s4 ! 0)
                         \<lparr>Proc_m_stdin := Some 0, m_blockedSignals := Some signals,
                          m_newPGID := 0\<rparr>]\<rparr>
            in thenO (safe_fork_exec L s5 0) (\<lambda>s6 pid.
               thenO (case m_readSide (files s6 ! 0) of
                        None \<Rightarrow> (s6, Crash)
                      | Some rd \<Rightarrow> liftE (FD_reset L s6 rd (- 1))) (\<lambda>s7 u.
                 (case m_writeSide (files s7 ! 0) of
                    None \<Rightarrow> (s7, Crash)
                  | Some wr \<Rightarrow>
                      (case FD_get s7 wr of
                         Inl e \<Rightarrow> (s7, Throw e)
                       | Inr fd \<Rightarrow>
                           (let (s8, r) = sys L s7 (Write fd input)
                            in if \<not> ret r \<ge> 0
                               then (s8, Throw (failure_fmt (''write failed: ''
                                                              @ strerror L (errno s8))))
                               else liftE (FD_reset L s8 wr (- 1)))))))))))"

text \<open>
  The \<^verbatim>\<open>try\<close> block of \<^verbatim>\<open>try_error_write\<close>: the inner block, the end of its scope (the
  file, then the harvester), and the test of the child's status.
\<close>

definition try_block ::
  "nat \<Rightarrow> libc \<Rightarrow> pstate \<Rightarrow> daemon_pipe \<Rightarrow> SignalBlocker \<Rightarrow> string
     \<Rightarrow> (pstate \<times> unit outcome) option" where
  "try_block fuel L s pipe signals input =
     (if length (m_specs pipe) \<noteq> 1
      then Some (s, Throw (failure_fmt ''specs must have 1 element''))
      else
        (let procSpec = m_specs pipe ! 0;
             leave = (\<lambda>s. ProcHarvester_dtor fuel L (FileMap_dtor L s) (m_sigset signals))
         in case feed_child L s procSpec signals input of
              (s1, Ok u) \<Rightarrow>
                (case leave s1 of
                   None \<Rightarrow> None
                 | Some s2 \<Rightarrow>
                     if \<not> (finished (specs s2 procSpec)
                            \<and> WIFEXITED (m_status (specs s2 procSpec))
                            \<and> WEXITSTATUS (m_status (specs s2 procSpec)) = 0)
                     then Some (s2, Throw (failure_fmt ''proc failed''))
                     else Some (s2, Ok ()))
            | (s1, Throw e) \<Rightarrow>
                (case leave s1 of None \<Rightarrow> None | Some s2 \<Rightarrow> Some (s2, Throw e))
            | (s1, other) \<Rightarrow> Some (s1, other)))"

text \<open>\<^verbatim>\<open>daemon_pipe::try_error_write\<close>\<close>

definition try_error_write ::
  "nat \<Rightarrow> libc \<Rightarrow> pstate \<Rightarrow> daemon_pipe \<Rightarrow> string \<Rightarrow> (pstate \<times> unit outcome) option" where
  "try_error_write fuel L s pipe input =
     (case SignalBlocker_ctor L s of
        (s1, Inl e) \<Rightarrow> Some (s1, Throw e)
      | (s1, Inr signals) \<Rightarrow>
          (case try_block fuel L s1 pipe signals input of
             None \<Rightarrow> None
           | Some (s2, Throw f) \<Rightarrow>
               Some (liftE (SignalBlocker_dtor L
                              (fst (writeN L s2 STDERR_FILENO input)) signals False))
           | Some (s2, Ok u) \<Rightarrow> Some (liftE (SignalBlocker_dtor L s2 signals False))
           | Some (s2, other) \<Rightarrow> Some (s2, other)))"

section \<open>Notions the claims use\<close>

text \<open>
  A \<^verbatim>\<open>target=src\<close> pair in the words of the specification: the target is what stands
  before the first \<^verbatim>\<open>=\<close>, the source what follows it; the pair is well formed when it
  is a C string with a \<^verbatim>\<open>=\<close> and a source that is not empty.
\<close>

definition pair_target :: "string \<Rightarrow> string" where
  "pair_target p = takeWhile (\<lambda>c. c \<noteq> CHR ''='') p"

definition pair_source :: "string \<Rightarrow> string" where
  "pair_source p = tl (dropWhile (\<lambda>c. c \<noteq> CHR ''='') p)"

definition well_formed_pair :: "string \<Rightarrow> bool" where
  "well_formed_pair p = (CHR ''='' \<in> set p \<and> pair_source p \<noteq> [] \<and> NUL \<notin> set p)"

text \<open>Kinds of calls.\<close>

fun namespace_call :: "syscall \<Rightarrow> bool" where
  "namespace_call (Unshare flags) = True"
| "namespace_call (Umount2 target flags) = True"
| "namespace_call (Mount source target fstype flags) = True"
| "namespace_call c = False"

fun symlink_call :: "syscall \<Rightarrow> bool" where
  "symlink_call (Symlink source path) = True"
| "symlink_call c = False"

fun stream_call :: "syscall \<Rightarrow> bool" where
  "stream_call (Fopen path mode) = True"
| "stream_call (Fprintf stream text) = True"
| "stream_call (Fclose stream) = True"
| "stream_call c = False"

text \<open>The calls a function made: what it added to the trace.\<close>

definition calls_since :: "'a world_scheme \<Rightarrow> 'b world_scheme \<Rightarrow> syscall list" where
  "calls_since w w' = drop (length (trace w)) (trace w')"

section \<open>Concrete environments for the examples\<close>

text \<open>
  An operating system in which every call succeeds: \<^verbatim>\<open>pipe\<close> gives the descriptors 3
  and 4, \<^verbatim>\<open>open\<close> gives 5, \<^verbatim>\<open>dup\<close> gives 6, \<^verbatim>\<open>fopen\<close> a non-null stream, \<^verbatim>\<open>fork\<close> the
  pid 100 (the caller is the parent), \<^verbatim>\<open>waitpid\<close> reports the child as exited with
  status 0, and a \<^verbatim>\<open>write\<close> takes the whole buffer.
\<close>

fun ok_answer :: "syscall \<Rightarrow> sysret" where
  "ok_answer Pipe = \<lparr>ret = 0, err = 0, out1 = 3, out2 = 4, bytes = []\<rparr>"
| "ok_answer (Open path flags mode) = \<lparr>ret = 5, err = 0, out1 = 0, out2 = 0, bytes = []\<rparr>"
| "ok_answer (Dup fd) = \<lparr>ret = 6, err = 0, out1 = 0, out2 = 0, bytes = []\<rparr>"
| "ok_answer (Fopen path mode) = \<lparr>ret = 7, err = 0, out1 = 0, out2 = 0, bytes = []\<rparr>"
| "ok_answer Fork = \<lparr>ret = 100, err = 0, out1 = 0, out2 = 0, bytes = []\<rparr>"
| "ok_answer Getpid = \<lparr>ret = 42, err = 0, out1 = 0, out2 = 0, bytes = []\<rparr>"
| "ok_answer (Waitpid pid opts) = \<lparr>ret = pid, err = 0, out1 = 0, out2 = 0, bytes = []\<rparr>"
| "ok_answer (Write fd buf) = \<lparr>ret = int (length buf), err = 0, out1 = 0, out2 = 0, bytes = []\<rparr>"
| "ok_answer c = \<lparr>ret = 0, err = 0, out1 = 0, out2 = 0, bytes = []\<rparr>"

definition ok_libc :: libc where
  "ok_libc = \<lparr>answer = (\<lambda>tr. ok_answer), strerror = (\<lambda>e. ''error'')\<rparr>"

definition init_world :: world where
  "init_world = \<lparr>trace = [], errno = 0, sigmask = {},
     hup_action = \<lparr>sa_handler = 0, sa_mask = {}, sa_flags = 0\<rparr>, environ = []\<rparr>"

definition spec0 :: daemon_proc_spec where
  "spec0 = \<lparr>m_forwardSignals = False, m_cmdArgv = [], m_stdin = None, m_stdout = None,
            m_stderr = None, m_pid = - 1, m_exited = False, m_status = 0\<rparr>"

definition init_state :: pstate where
  "init_state = \<lparr>trace = [], errno = 0, sigmask = {},
     hup_action = \<lparr>sa_handler = 0, sa_mask = {}, sa_flags = 0\<rparr>, environ = [],
     specs = (\<lambda>a. spec0), fds = (\<lambda>a. - 1), fd_count = 0, files = [], procs = []\<rparr>"

text \<open>
  Two processes that share one named file: the first writes it, the second reads it.
\<close>

definition shared_file :: file_spec where
  "shared_file = \<lparr>fs_addr = 1, m_filename = ''/tmp/x'', m_append = False\<rparr>"

definition rw_state :: pstate where
  "rw_state = init_state\<lparr>specs := (\<lambda>a.
       if a = 0 then spec0\<lparr>m_cmdArgv := [''producer''], m_stdout := Some shared_file\<rparr>
       else spec0\<lparr>m_cmdArgv := [''consumer''], m_stdin := Some shared_file\<rparr>)\<rparr>"

text \<open>The signal mask and the disposition of SIGHUP of a process.\<close>

definition signal_state :: "'a world_scheme \<Rightarrow> int set \<times> sigaction" where
  "signal_state w = (sigmask w, hup_action w)"

text \<open>
  A process whose error pipe is open (descriptors 3 and 4), and an operating system in
  which the read of the error pipe delivers the message of a child whose exec failed.
\<close>

fun exec_fail_answer :: "syscall \<Rightarrow> sysret" where
  "exec_fail_answer (Read fd n) =
     \<lparr>ret = 0, err = 0, out1 = 0, out2 = 0, bytes = ''execvp /does/not/exist failed: error''\<rparr>"
| "exec_fail_answer c = ok_answer c"

definition exec_fail_libc :: libc where
  "exec_fail_libc = \<lparr>answer = (\<lambda>tr. exec_fail_answer), strerror = (\<lambda>e. ''error'')\<rparr>"

definition piped_state :: pstate where
  "piped_state = init_state
     \<lparr>specs := (\<lambda>a. spec0\<lparr>m_cmdArgv := [''/does/not/exist'']\<rparr>),
      fds := (\<lambda>a. if a = 0 then 3 else if a = 1 then 4 else - 1),
      fd_count := 2,
      procs := [Proc_new 0]\<rparr>"

text \<open>
  One process, \<open>cat\<close>, that reads an anonymous pipe and writes the file \<open>/tmp/out\<close>,
  in a process that has SIGINT and SIGUSR1 blocked and a handler for SIGHUP.
\<close>

definition cat_spec :: daemon_proc_spec where
  "cat_spec = spec0\<lparr>m_cmdArgv := [''cat''], m_forwardSignals := True,
      m_stdin := Some \<lparr>fs_addr = 1, m_filename = [], m_append = False\<rparr>,
      m_stdout := Some \<lparr>fs_addr = 2, m_filename = ''/tmp/out'', m_append = False\<rparr>\<rparr>"

definition cat_state :: pstate where
  "cat_state = init_state\<lparr>specs := (\<lambda>a. cat_spec), sigmask := {2, 10},
      hup_action := \<lparr>sa_handler = 4096, sa_mask = {}, sa_flags = 0\<rparr>\<rparr>"

definition cat_pipe :: daemon_pipe where
  "cat_pipe = \<lparr>m_lockFile = ''/tmp/lock'', m_specs = [0]\<rparr>"

text \<open>
  An operating system in which the child has not exited yet, \<^verbatim>\<open>sigwait\<close> delivers
  SIGTERM, and \<^verbatim>\<open>kill\<close> fails; and the state of a supervisor with one running child that
  wants the signals.
\<close>

fun kill_fail_answer :: "syscall \<Rightarrow> sysret" where
  "kill_fail_answer (Waitpid pid opts) = \<lparr>ret = 0, err = 0, out1 = 0, out2 = 0, bytes = []\<rparr>"
| "kill_fail_answer (Sigwait sigs) = \<lparr>ret = 0, err = 0, out1 = 15, out2 = 0, bytes = []\<rparr>"
| "kill_fail_answer (Kill pid sig) = \<lparr>ret = - 1, err = 1, out1 = 0, out2 = 0, bytes = []\<rparr>"
| "kill_fail_answer c = ok_answer c"

definition kill_fail_libc :: libc where
  "kill_fail_libc = \<lparr>answer = (\<lambda>tr. kill_fail_answer), strerror = (\<lambda>e. ''error'')\<rparr>"

definition running_state :: pstate where
  "running_state = init_state
     \<lparr>specs := (\<lambda>a. cat_spec\<lparr>m_pid := 100\<rparr>), procs := [Proc_new 0]\<rparr>"

text \<open>
  A lock file that another process holds: \<^verbatim>\<open>flock\<close> fails with \<^verbatim>\<open>EWOULDBLOCK\<close>. In the
  second operating system the \<^verbatim>\<open>close\<close> that follows fails as well. \<open>lock_state\<close> has
  the descriptor object of a \<^verbatim>\<open>LockFile\<close> at address 0, not yet open; in \<open>held_state\<close>
  it holds the descriptor 5.
\<close>

fun lock_busy_answer :: "syscall \<Rightarrow> sysret" where
  "lock_busy_answer (Flock fd how) = \<lparr>ret = - 1, err = 11, out1 = 0, out2 = 0, bytes = []\<rparr>"
| "lock_busy_answer c = ok_answer c"

definition lock_busy_libc :: libc where
  "lock_busy_libc = \<lparr>answer = (\<lambda>tr. lock_busy_answer), strerror = (\<lambda>e. ''error'')\<rparr>"

fun close_fail_answer :: "syscall \<Rightarrow> sysret" where
  "close_fail_answer (Close fd) = \<lparr>ret = - 1, err = 5, out1 = 0, out2 = 0, bytes = []\<rparr>"
| "close_fail_answer c = lock_busy_answer c"

definition close_fail_libc :: libc where
  "close_fail_libc = \<lparr>answer = (\<lambda>tr. close_fail_answer), strerror = (\<lambda>e. ''error'')\<rparr>"

definition lock_state :: pstate where
  "lock_state = init_state\<lparr>fd_count := 1\<rparr>"

definition held_state :: pstate where
  "held_state = init_state\<lparr>fds := (\<lambda>a. if a = 0 then 5 else - 1), fd_count := 1\<rparr>"

text \<open>An operating system in which \<^verbatim>\<open>sigaction\<close> fails.\<close>

fun sigaction_fail_answer :: "syscall \<Rightarrow> sysret" where
  "sigaction_fail_answer (Sigaction sig act) = \<lparr>ret = - 1, err = 22, out1 = 0, out2 = 0, bytes = []\<rparr>"
| "sigaction_fail_answer c = ok_answer c"

definition sigaction_fail_libc :: libc where
  "sigaction_fail_libc = \<lparr>answer = (\<lambda>tr. sigaction_fail_answer), strerror = (\<lambda>e. ''error'')\<rparr>"

section \<open>Automation setup\<close>

declare digits.simps [simp del]
declare mkdir_p.simps [simp del]
declare copy_args.simps [simp del]
declare collect_back.simps [simp del]
declare collect_rest.simps [simp del]
declare writeN.simps [simp del]

section \<open>Properties of the failure message\<close>

lemma cstr_map_Some_NUL:
  "cstr (map Some xs @ Some NUL # rest) = Some (takeWhile (\<lambda>c. c \<noteq> NUL) xs)"
  by (induction xs) auto

lemma failure_fmt_buffer:
  "\<exists>rest. m_err (failure_fmt s) = map Some (take 254 s) @ Some NUL # rest
      \<and> length rest = 255 - min (length s) 254"
proof -
  define k where "k = min (length s) 254"
  have k: "length (take 254 s) = k" "k \<le> 254" by (simp_all add: k_def)
  then obtain j where j: "255 - k = Suc j" by (cases "255 - k") auto
  have "m_err (failure_fmt s) =
      (map Some (take 254 s) @ Some NUL # replicate (255 - k) None)[255 := Some NUL]"
    by (simp add: failure_fmt_def vsnprintf_def Let_def k_def)
  also have "\<dots> = map Some (take 254 s) @ (Some NUL # replicate (255 - k) None)[255 - k := Some NUL]"
    using k by (simp add: list_update_append)
  also have "\<dots> = map Some (take 254 s) @ Some NUL # (replicate (255 - k) None)[j := Some NUL]"
    by (simp add: j)
  finally show ?thesis by (auto simp: k_def)
qed

lemma what_failure_fmt:
  "what (failure_fmt s) = Some (takeWhile (\<lambda>c. c \<noteq> NUL) (take 254 s))"
  using failure_fmt_buffer[of s] by (auto simp: what_def cstr_map_Some_NUL)

section \<open>Properties of the helper\<close>

lemma copy_args_drop: "copy_args argv i acc = acc @ drop i argv"
proof (induction argv i acc rule: copy_args.induct)
  case (1 argv i acc)
  show ?case
  proof (cases "i < length argv")
    case True
    then show ?thesis
      using "1.IH" by (subst copy_args.simps) (simp add: Cons_nth_drop_Suc)
  next
    case False
    then show ?thesis by (subst copy_args.simps) simp
  qed
qed

lemma collect_back_stop:
  assumes "argv = pre @ ''--'' # suf" and "''--'' \<notin> set suf" and "k \<le> length suf"
  shows "collect_back argv (int (length pre + k)) acc = (take k suf @ acc, int (length pre))"
  using assms(3)
proof (induction k arbitrary: acc)
  case 0
  show ?case
    by (subst collect_back.simps) (simp add: assms(1) nth_append)
next
  case (Suc k)
  have nth: "argv ! (length pre + Suc k) = suf ! k"
    by (simp add: assms(1) nth_append)
  have ne: "suf ! k \<noteq> ''--''"
    using assms(2) Suc.prems by (metis Suc_le_lessD nth_mem)
  have "collect_back argv (int (length pre + Suc k)) acc
      = collect_back argv (int (length pre + k)) (suf ! k # acc)"
    using nth ne by (subst collect_back.simps) (simp add: nat_add_distrib)
  also have "\<dots> = (take k suf @ suf ! k # acc, int (length pre))"
    using Suc by simp
  finally show ?case
    using Suc.prems by (simp add: take_Suc_conv_app_nth)
qed


lemma sys_trace [simp]: "trace (fst (sys L w c)) = trace w @ [c]"
  by (simp add: sys_def Let_def)

lemma sys_environ [simp]: "environ (fst (sys L w c)) = environ w"
  by (simp add: sys_def Let_def)

lemma sys_sigmask [simp]: "sigmask (fst (sys L w c)) = sigmask w"
  by (simp add: sys_def Let_def)

lemma sys_hup_action [simp]: "hup_action (fst (sys L w c)) = hup_action w"
  by (simp add: sys_def Let_def)

lemma sys_eq_fst: "sys L w c = (w1, r) \<Longrightarrow> w1 = fst (sys L w c) \<and> r = answer L (trace w) c"
  by (auto simp: sys_def Let_def)

lemma add_to_environ_fresh:
  "(\<And>e. e \<in> set env \<Longrightarrow> take (length name + 1) e \<noteq> name @ ''='')
   \<Longrightarrow> add_to_environ name s env = env @ [s]"
  by (induction env) auto

lemma env_name_no_eq: "CHR ''='' \<notin> set (env_name s)"
  unfolding env_name_def by (metis (mono_tags, lifting) set_takeWhileD)

lemma takeWhile_until: "c \<notin> set xs \<Longrightarrow> takeWhile (\<lambda>x. x \<noteq> c) (xs @ c # rest) = xs"
  by (induction xs) auto

lemma env_name_of_match:
  assumes "take (length name + 1) e = name @ ''=''" and "CHR ''='' \<notin> set name"
  shows "env_name e = name"
proof -
  have "e = (name @ ''='') @ drop (length name + 1) e"
    using assms(1) by (metis append_take_drop_id)
  then obtain rest where e: "e = name @ CHR ''='' # rest" by simp
  show ?thesis
    unfolding e env_name_def using assms(2) by (rule takeWhile_until)
qed

lemma putenv_environ_fresh:
  assumes "CHR ''='' \<in> set s" and "env_name s \<notin> env_name ` set env"
  shows "putenv_environ s env = env @ [s]"
proof -
  have "add_to_environ (env_name s) s env = env @ [s]"
  proof (rule add_to_environ_fresh)
    fix e assume e: "e \<in> set env"
    show "take (length (env_name s) + 1) e \<noteq> env_name s @ ''=''"
    proof
      assume "take (length (env_name s) + 1) e = env_name s @ ''=''"
      then have "env_name e = env_name s"
        by (rule env_name_of_match) (rule env_name_no_eq)
      with e assms(2) show False by (metis image_eqI)
    qed
  qed
  then show ?thesis using assms(1) by (simp add: putenv_environ_def)
qed

lemma fold_putenv_environ:
  assumes "\<And>e. e \<in> set es \<Longrightarrow> CHR ''='' \<in> set e" and "distinct (map env_name es)"
    and "\<And>e. e \<in> set es \<Longrightarrow> env_name e \<notin> env_name ` set env"
  shows "fold putenv_environ es env = env @ es"
  using assms
proof (induction es arbitrary: env)
  case Nil
  then show ?case by simp
next
  case (Cons e es)
  have step: "putenv_environ e env = env @ [e]"
    using Cons.prems(1,3) by (intro putenv_environ_fresh) auto
  have "fold putenv_environ es (env @ [e]) = (env @ [e]) @ es"
  proof (rule Cons.IH)
    show "\<And>x. x \<in> set es \<Longrightarrow> CHR ''='' \<in> set x" using Cons.prems(1) by simp
    show "distinct (map env_name es)" using Cons.prems(2) by simp
    show "\<And>x. x \<in> set es \<Longrightarrow> env_name x \<notin> env_name ` set (env @ [e])"
      using Cons.prems(2,3) by auto (metis image_eqI)
  qed
  then show ?case by (simp add: step)
qed

lemma environ_fold_putenv:
  "environ (fold (\<lambda>env_var w. putenv L w env_var) es w) = fold putenv_environ es (environ w)"
  by (induction es arbitrary: w) (simp_all add: putenv_def Let_def)

lemma environ_clearenv [simp]: "environ (clearenv L w) = []"
  by (simp add: clearenv_def)

lemma create_symlinks_not_exec:
  "create_symlinks_and_metadata L w pn ns \<noteq> (w', Exec_done)"
  by (auto simp: create_symlinks_and_metadata_def Let_def split: list.splits prod.splits option.splits)

lemma main_privileged_exec:
  assumes "main_privileged L w pn envs ns ex = (w', Exec_done)"
  shows "environ w' = fold putenv_environ envs []
           \<and> trace w' \<noteq> [] \<and> (\<exists>file args. last (trace w') = Execvp file args (environ w'))"
  using assms
  unfolding main_privileged_def Let_def
  apply (simp split: prod.splits if_splits outcome.splits list.splits add: check_fail_def create_symlinks_not_exec)
  apply (auto dest!: sys_eq_fst simp: environ_fold_putenv)
  done



lemma main_nonempty:
  assumes "argv \<noteq> []"
  shows "main L w argv =
     (if int (length argv) \<le> 1 then map_prod id Ok (usage L w (basename (hd argv)))
      else if argv ! 1 = ''--init.d''
      then create_symlinks_and_metadata L w (basename (hd argv)) (copy_args argv 1 [])
      else (case collect_back argv (int (length argv) - 1) [] of
              (env_args, i1) \<Rightarrow>
                (case collect_back argv (i1 - 1) [] of
                   (ns_args, i2) \<Rightarrow>
                     if length ns_args = 0 then map_prod id Ok (usage L w (basename (hd argv)))
                     else main_privileged L w (basename (hd argv)) env_args ns_args
                            (collect_rest argv (i2 - 1) []))))"
proof (cases argv)
  case Nil
  with assms show ?thesis by simp
next
  case (Cons a list)
  show ?thesis unfolding Cons by (simp add: main_def Let_def split: prod.splits)
qed

lemma find_char_takeWhile:
  "c \<in> set s \<Longrightarrow> find_char c s = Some (length (takeWhile (\<lambda>x. x \<noteq> c) s))"
  by (induction s) auto

lemma rfind_char_Some: "c \<in> set s \<Longrightarrow> \<exists>k. rfind_char c s = Some k"
  using find_char_takeWhile[of c "rev s"] by (simp add: rfind_char_def)

lemma well_formed_pair_split:
  assumes "well_formed_pair p"
  shows "find_char CHR ''='' p = Some (length (pair_target p))"
    and "char_at p (length (pair_target p) + 1) \<noteq> NUL"
    and "take (length (pair_target p)) p = pair_target p"
    and "drop (length (pair_target p) + 1) p = pair_source p"
proof -
  let ?i = "length (pair_target p)"
  show "find_char CHR ''='' p = Some ?i"
    using assms by (simp add: well_formed_pair_def pair_target_def find_char_takeWhile)
  show tk: "take ?i p = pair_target p"
    unfolding pair_target_def by (rule takeWhile_eq_take[symmetric])
  show dr: "drop (?i + 1) p = pair_source p"
    by (simp add: pair_target_def pair_source_def dropWhile_eq_drop drop_Suc tl_drop)
  have "pair_source p \<noteq> []" using assms by (simp add: well_formed_pair_def)
  then have lt: "?i + 1 < length p" using dr by (metis drop_eq_Nil2 not_le)
  then have "p ! (?i + 1) \<in> set p" by simp
  then have "p ! (?i + 1) \<noteq> NUL" using assms by (auto simp: well_formed_pair_def)
  then show "char_at p (?i + 1) \<noteq> NUL" using lt by (simp add: char_at_def)
qed

lemma mkdir_p_once:
  assumes "\<forall>tr p m. ret (answer L tr (Mkdir p m)) \<ge> 0 \<or> err (answer L tr (Mkdir p m)) = EEXIST"
  shows "\<exists>w1 r. mkdir_p L w dir mode = (w1, r) \<and> trace w1 = trace w @ [Mkdir dir mode]
           \<and> (r \<ge> 0 \<or> errno w1 = EEXIST)"
  using assms[rule_format, of "trace w" dir mode]
  by (subst mkdir_p.simps) (auto simp: sys_def Let_def EEXIST_def ENOENT_def)

lemma symlink_one_ok:
  assumes wf: "well_formed_pair p"
    and mk: "\<forall>tr p m. ret (answer L tr (Mkdir p m)) \<ge> 0 \<or> err (answer L tr (Mkdir p m)) = EEXIST"
    and sl: "\<forall>tr a b. ret (answer L tr (Symlink a b)) \<ge> 0"
  shows "\<exists>w' d. symlink_one L w pn p = (w', None)
           \<and> trace w' = trace w @ [Mkdir d 493,
                 Symlink (pair_source p) (WITH_MOUNTPOINT @ ''/'' @ pair_target p)]"
proof -
  let ?mp = "WITH_MOUNTPOINT @ ''/'' @ pair_target p"
  obtain k where k: "rfind_char CHR ''/'' ?mp = Some k"
    using rfind_char_Some[of "CHR ''/''" ?mp] by auto
  obtain w1 r where m: "mkdir_p L w (take k ?mp) 493 = (w1, r)"
      "trace w1 = trace w @ [Mkdir (take k ?mp) 493]" "r \<ge> 0 \<or> errno w1 = EEXIST"
    using mkdir_p_once[OF mk] by blast
  obtain w2 r2 where s: "sys L w1 (Symlink (pair_source p) ?mp) = (w2, r2)"
    by (cases "sys L w1 (Symlink (pair_source p) ?mp)")
  have r2: "ret r2 \<ge> 0" and t2: "trace w2 = trace w1 @ [Symlink (pair_source p) ?mp]"
    using s sl by (auto simp: sys_def Let_def)
  have "symlink_one L w pn p = (w2, None)"
    using well_formed_pair_split[OF wf] k m s r2
    by (simp add: symlink_one_def Let_def)
  then show ?thesis using t2 m(2) by auto
qed

lemma symlink_loop_ok:
  assumes wf: "\<forall>p\<in>set pairs. well_formed_pair p"
    and mk: "\<forall>tr p m. ret (answer L tr (Mkdir p m)) \<ge> 0 \<or> err (answer L tr (Mkdir p m)) = EEXIST"
    and sl: "\<forall>tr a b. ret (answer L tr (Symlink a b)) \<ge> 0"
  shows "\<exists>w' cs. symlink_loop L w pn pairs = (w', None) \<and> trace w' = trace w @ cs
           \<and> filter namespace_call cs = [] \<and> filter stream_call cs = []
           \<and> filter symlink_call cs
               = map (\<lambda>p. Symlink (pair_source p) (WITH_MOUNTPOINT @ ''/'' @ pair_target p)) pairs"
  using wf
proof (induction pairs arbitrary: w)
  case Nil
  then show ?case by simp
next
  case (Cons p pairs)
  obtain w1 d where one: "symlink_one L w pn p = (w1, None)"
      "trace w1 = trace w @ [Mkdir d 493,
          Symlink (pair_source p) (WITH_MOUNTPOINT @ ''/'' @ pair_target p)]"
    using symlink_one_ok[OF _ mk sl, of p w pn] Cons.prems by auto
  obtain w' cs where rest: "symlink_loop L w1 pn pairs = (w', None)" "trace w' = trace w1 @ cs"
      "filter namespace_call cs = []" "filter stream_call cs = []"
      "filter symlink_call cs
         = map (\<lambda>p. Symlink (pair_source p) (WITH_MOUNTPOINT @ ''/'' @ pair_target p)) pairs"
    using Cons.IH[of w1] Cons.prems by auto
  show ?case
    using one rest by simp
qed

lemma write_tokens_trace:
  "trace (write_tokens L w fd sep xs) = trace w @ map (\<lambda>x. Fprintf fd (x @ sep)) xs"
  by (induction xs arbitrary: w) simp_all

lemma filter_stream_Fprintf:
  "filter stream_call (map (\<lambda>x. Fprintf fd (f x)) xs) = map (\<lambda>x. Fprintf fd (f x)) xs"
  "filter namespace_call (map (\<lambda>x. Fprintf fd (f x)) xs) = []"
  "filter symlink_call (map (\<lambda>x. Fprintf fd (f x)) xs) = []"
  by (induction xs) simp_all


section \<open>Properties of the supervisor\<close>

lemma sys_errno: "errno (fst (sys L w c)) = (if ret (answer L (trace w) c) < 0 then err (answer L (trace w) c) else errno w)"
  by (simp add: sys_def Let_def)

lemma sys_snd [simp]: "snd (sys L w c) = answer L (trace w) c"
  by (simp add: sys_def Let_def)

lemma sys_specs [simp]: "specs (fst (sys L s c)) = specs s"
  by (simp add: sys_def Let_def)

lemma sys_fds [simp]: "fds (fst (sys L s c)) = fds s"
  by (simp add: sys_def Let_def)

lemma sys_fd_count [simp]: "fd_count (fst (sys L s c)) = fd_count s"
  by (simp add: sys_def Let_def)

lemma sys_files [simp]: "files (fst (sys L s c)) = files s"
  by (simp add: sys_def Let_def)

lemma sys_procs [simp]: "procs (fst (sys L s c)) = procs s"
  by (simp add: sys_def Let_def)

lemma sys_pair: "sys L w c = (fst (sys L w c), answer L (trace w) c)"
  by (simp add: sys_def Let_def)


lemma sys_signal_state [simp]: "signal_state (fst (sys L w c)) = signal_state w"
  by (simp add: signal_state_def)

lemma sys_read_frame [simp]:
  "signal_state (fst (sys_read L s fd n)) = signal_state s"
  "specs (fst (sys_read L s fd n)) = specs s"
  "fds (fst (sys_read L s fd n)) = fds s"
  "files (fst (sys_read L s fd n)) = files s"
  "procs (fst (sys_read L s fd n)) = procs s"
  by (simp_all add: sys_read_def Let_def split_beta)

lemma writeN_frame [simp]:
  "signal_state (fst (writeN L s fd buf)) = signal_state s
   \<and> specs (fst (writeN L s fd buf)) = specs s
   \<and> fds (fst (writeN L s fd buf)) = fds s
   \<and> files (fst (writeN L s fd buf)) = files s
   \<and> procs (fst (writeN L s fd buf)) = procs s"
proof (induction L s fd buf rule: writeN.induct)
  case (1 L w fd buf)
  show ?case
  proof (cases "length buf > 0 \<and> \<not> ret (answer L (trace w) (Write fd buf)) \<le> 0")
    case True
    then show ?thesis
      using "1.IH"[OF _ refl prod.collapse refl]
      by (subst (1 2 3 4 5) writeN.simps) (simp add: Let_def split_beta)
  next
    case False
    then show ?thesis
      by (subst (1 2 3 4 5) writeN.simps) (auto simp: Let_def split_beta)
  qed
qed

lemma FD_new_frame [simp]:
  "signal_state (fst (FD_new s)) = signal_state s"
  "specs (fst (FD_new s)) = specs s"
  "files (fst (FD_new s)) = files s"
  "procs (fst (FD_new s)) = procs s"
  "trace (fst (FD_new s)) = trace s"
  by (simp_all add: FD_new_def signal_state_def)

lemma FD_reset_frame [simp]:
  "signal_state (fst (FD_reset L s a v)) = signal_state s"
  "specs (fst (FD_reset L s a v)) = specs s"
  "files (fst (FD_reset L s a v)) = files s"
  "procs (fst (FD_reset L s a v)) = procs s"
  by (simp_all add: FD_reset_def Let_def split_beta signal_state_def)

lemma FD_dtor_frame [simp]:
  "signal_state (FD_dtor L s a) = signal_state s"
  "specs (FD_dtor L s a) = specs s"
  "files (FD_dtor L s a) = files s"
  "procs (FD_dtor L s a) = procs s"
  by (simp_all add: FD_dtor_def)

lemma FD_setCloseOnExec_frame [simp]:
  "signal_state (fst (FD_setCloseOnExec L s a)) = signal_state s"
  "specs (fst (FD_setCloseOnExec L s a)) = specs s"
  "fds (fst (FD_setCloseOnExec L s a)) = fds s"
  "files (fst (FD_setCloseOnExec L s a)) = files s"
  "procs (fst (FD_setCloseOnExec L s a)) = procs s"
  by (simp_all add: FD_setCloseOnExec_def Let_def split_beta)

lemma FD_setNonBlock_frame [simp]:
  "signal_state (fst (FD_setNonBlock L s a)) = signal_state s"
  "specs (fst (FD_setNonBlock L s a)) = specs s"
  "fds (fst (FD_setNonBlock L s a)) = fds s"
  "files (fst (FD_setNonBlock L s a)) = files s"
  "procs (fst (FD_setNonBlock L s a)) = procs s"
  by (simp_all add: FD_setNonBlock_def Let_def split_beta)

text \<open>Sequencing keeps what every step keeps.\<close>

lemma thenE_keeps:
  assumes "g (fst m) = x" and "\<And>s a. g s = x \<Longrightarrow> g (fst (f s a)) = x"
  shows "g (fst (thenE m f)) = x"
  using assms by (cases m) (auto simp: thenE_def split: sum.splits)

lemma thenO_keeps:
  assumes "g (fst m) = x" and "\<And>s a. g s = x \<Longrightarrow> g (fst (f s a)) = x"
  shows "g (fst (thenO m f)) = x"
  using assms by (cases m) (auto simp: thenO_def split: outcome.splits)

lemma liftE_fst [simp]: "fst (liftE m) = fst m"
  by (cases m) (auto simp: liftE_def split: sum.splits)

lemma FD_pipe_frame [simp]:
  "signal_state (fst (FD_pipe L s a b fl)) = signal_state s"
  "specs (fst (FD_pipe L s a b fl)) = specs s"
  "files (fst (FD_pipe L s a b fl)) = files s"
  "procs (fst (FD_pipe L s a b fl)) = procs s"
  unfolding FD_pipe_def Let_def split_beta
  by (simp_all add: thenE_keeps)

lemma sys_sigprocmask_frame [simp]:
  "specs (fst (sys_sigprocmask L s how sigs)) = specs s"
  "fds (fst (sys_sigprocmask L s how sigs)) = fds s"
  "files (fst (sys_sigprocmask L s how sigs)) = files s"
  "procs (fst (sys_sigprocmask L s how sigs)) = procs s"
  "hup_action (fst (sys_sigprocmask L s how sigs)) = hup_action s"
  by (simp_all add: sys_sigprocmask_def Let_def split_beta)

lemma sys_sigaction_frame [simp]:
  "specs (fst (sys_sigaction L s sig act)) = specs s"
  "fds (fst (sys_sigaction L s sig act)) = fds s"
  "files (fst (sys_sigaction L s sig act)) = files s"
  "procs (fst (sys_sigaction L s sig act)) = procs s"
  "sigmask (fst (sys_sigaction L s sig act)) = sigmask s"
  by (simp_all add: sys_sigaction_def Let_def split_beta)

lemma unblock_frame [simp]:
  "specs (fst (unblock L s sb u)) = specs s"
  "fds (fst (unblock L s sb u)) = fds s"
  "files (fst (unblock L s sb u)) = files s"
  "procs (fst (unblock L s sb u)) = procs s"
  by (simp_all add: unblock_def Let_def split_beta)

lemma child_dup2_frame [simp]:
  "specs (fst (child_dup2 L s file as_read target)) = specs s"
  "files (fst (child_dup2 L s file as_read target)) = files s"
  by (simp_all add: child_dup2_def Let_def split_beta split: option.splits sum.splits)

lemma child_try_specs [simp]: "specs (fst (child_try L s p)) = specs s"
  unfolding child_try_def Let_def split_beta
  by (simp add: thenO_keeps split: option.splits)

lemma child_branch_specs [simp]: "specs (fst (child_branch L s p wr)) = specs s"
proof -
  have "specs (fst (child_try L s p)) = specs s" by simp
  then show ?thesis
    by (cases "child_try L s p")
       (auto simp: child_branch_def split: outcome.splits sum.splits option.splits)
qed

lemma child_branch_not_Ok: "child_branch L s p wr \<noteq> (s', Ok v)"
  by (auto simp: child_branch_def split: prod.splits outcome.splits sum.splits option.splits)

lemma parent_branch_Inl_specs:
  assumes "parent_branch L s p rd wr pid = (s', Inl e)"
  shows "specs s' = specs s"
proof -
  obtain s1 r1 where 1: "FD_reset L s wr (- 1) = (s1, r1)"
    by (cases "FD_reset L s wr (- 1)")
  have s1: "specs s1 = specs s"
    using FD_reset_frame(2)[of L s wr "- 1"] 1 by simp
  show ?thesis
    using assms 1 s1
    unfolding parent_branch_def thenE_def Let_def split_beta
    by (auto split: sum.splits if_splits dest!: arg_cong[where f = specs])
qed


lemma after_fork_Throw:
  assumes "after_fork L s p rd wr pid = (s', Throw e)"
  shows "specs s' = specs s \<and> (\<exists>tr. trace s' = tr @ [Kill pid SIGTERM, Waitpid pid 0])"
proof (cases "pid = 0")
  case True
  obtain s1 r1 where c: "child_branch L s p wr = (s1, r1)"
    by (cases "child_branch L s p wr")
  have "specs s1 = specs s" using child_branch_specs[of L s p wr] c by simp
  then show ?thesis
    using assms True c
    by (auto simp: after_fork_def Let_def split: outcome.splits)
next
  case False
  obtain s1 r1 where c: "parent_branch L s p rd wr pid = (s1, r1)"
    by (cases "parent_branch L s p rd wr pid")
  show ?thesis
    using assms False c parent_branch_Inl_specs[of L s p rd wr pid s1]
    by (auto simp: after_fork_def liftE_def Let_def split: outcome.splits sum.splits)
qed

lemma after_fork_parent:
  assumes "pid \<noteq> 0" and "rd \<noteq> wr" and "fds s wr \<noteq> - 1" and "fds s rd \<noteq> - 1"
    and "ret (answer L (trace s) (Close (fds s wr))) = 0"
    and "0 \<le> ret (answer L (trace s @ [Close (fds s wr)]) (Read (fds s rd) 256))"
  shows "(let data = take 256 (bytes (answer L (trace s @ [Close (fds s wr)]) (Read (fds s rd) 256)))
          in if data = []
             then (\<exists>s'. after_fork L s p rd wr pid = (s', Ok pid)
                     \<and> m_pid (specs s' (Proc_m_spec p)) = pid
                     \<and> trace s' = trace s @ [Close (fds s wr), Read (fds s rd) 256])
             else (\<exists>s' f. after_fork L s p rd wr pid = (s', Throw f)
                     \<and> take (length data) (m_err f) = map Some data
                     \<and> specs s' = specs s
                     \<and> trace s' = trace s @ [Close (fds s wr), Read (fds s rd) 256,
                                              Kill pid SIGTERM, Waitpid pid 0]))"
  using assms
  by (simp add: after_fork_def parent_branch_def thenE_def liftE_def FD_reset_def FD_get_def
        FD_isOk_def sys_read_def Let_def split_beta sys_def)


lemma signal_state_update [simp]:
  "signal_state (s\<lparr>specs := a\<rparr>) = signal_state s"
  "signal_state (s\<lparr>fds := b\<rparr>) = signal_state s"
  "signal_state (s\<lparr>fd_count := c\<rparr>) = signal_state s"
  "signal_state (s\<lparr>files := d\<rparr>) = signal_state s"
  "signal_state (s\<lparr>procs := e\<rparr>) = signal_state s"
  "signal_state (s\<lparr>trace := f\<rparr>) = signal_state s"
  "signal_state (s\<lparr>errno := g\<rparr>) = signal_state s"
  by (simp_all add: signal_state_def)

lemma parent_branch_Inr:
  assumes "parent_branch L s p rd wr pid = (s', Inr v)"
  shows "v = pid \<and> specs s' = (specs s)(Proc_m_spec p := (specs s (Proc_m_spec p))\<lparr>m_pid := pid\<rparr>)
         \<and> signal_state s' = signal_state s \<and> files s' = files s \<and> procs s' = procs s"
proof -
  obtain s1 r1 where 1: "FD_reset L s wr (- 1) = (s1, r1)"
    by (cases "FD_reset L s wr (- 1)")
  have s1: "specs s1 = specs s" "signal_state s1 = signal_state s" "files s1 = files s"
      "procs s1 = procs s"
    using FD_reset_frame[of L s wr "- 1"] 1 by simp_all
  show ?thesis
    using assms 1 s1
    unfolding parent_branch_def thenE_def Let_def split_beta
    by (auto split: sum.splits if_splits)
qed

lemma after_fork_Ok:
  assumes "after_fork L s p rd wr pid = (s', Ok v)"
  shows "v = pid \<and> specs s' = (specs s)(Proc_m_spec p := (specs s (Proc_m_spec p))\<lparr>m_pid := pid\<rparr>)
         \<and> signal_state s' = signal_state s \<and> files s' = files s \<and> procs s' = procs s"
proof (cases "pid = 0")
  case True
  then show ?thesis
    using assms child_branch_not_Ok[of L s p wr]
    by (auto simp: after_fork_def Let_def split: outcome.splits prod.splits)
next
  case False
  obtain s1 r1 where c: "parent_branch L s p rd wr pid = (s1, r1)"
    by (cases "parent_branch L s p rd wr pid")
  show ?thesis
    using assms False c parent_branch_Inr[of L s p rd wr pid s1]
    by (auto simp: after_fork_def liftE_def Let_def split: outcome.splits sum.splits)
qed

lemma safe_fork_exec_result:
  assumes "safe_fork_exec L s i = (s', r)"
  shows "(\<forall>e. r = Throw e \<longrightarrow> specs s' = specs s)
       \<and> (\<forall>v. r = Ok v \<longrightarrow>
             specs s' = (specs s)(Proc_m_spec (procs s ! i) :=
                           (specs s (Proc_m_spec (procs s ! i)))\<lparr>m_pid := v\<rparr>)
             \<and> signal_state s' = signal_state s \<and> files s' = files s \<and> procs s' = procs s)"
proof (cases "m_cmdArgv (specs s (Proc_m_spec (procs s ! i))) = []")
  case True
  then show ?thesis using assms by (auto simp: safe_fork_exec_def Let_def)
next
  case False
  define p where "p = procs s ! i"
  define s1 where "s1 = fst (FD_new s)"
  define rd where "rd = snd (FD_new s)"
  define s2 where "s2 = fst (FD_new s1)"
  define wr where "wr = snd (FD_new s1)"
  define m where "m = thenE (FD_pipe L s2 rd wr FD_CLOEXEC) (\<lambda>s3 u. FD_setNonBlock L s3 wr)"
  define s5 where "s5 = fst (sys L (fst m) Fork)"
  define pid where "pid = ret (answer L (trace (fst m)) Fork)"
  define af where "af = after_fork L s5 p rd wr pid"
  have keep2: "specs s2 = specs s" "signal_state s2 = signal_state s" "files s2 = files s"
      "procs s2 = procs s"
    by (simp_all add: s2_def s1_def)
  have keepm: "specs (fst m) = specs s" "signal_state (fst m) = signal_state s"
      "files (fst m) = files s" "procs (fst m) = procs s"
    unfolding m_def by (simp_all add: thenE_keeps keep2)
  have keep5: "specs s5 = specs s" "signal_state s5 = signal_state s"
      "files s5 = files s" "procs s5 = procs s"
    by (simp_all add: s5_def keepm)
  have unfold: "safe_fork_exec L s i =
      (case m of
         (s4, Inl e) \<Rightarrow> (FD_dtor L (FD_dtor L s4 wr) rd, Throw e)
       | (s4, Inr u) \<Rightarrow>
           if \<not> pid \<ge> 0
           then (FD_dtor L (FD_dtor L s5 wr) rd,
                 Throw (failure_fmt (''fork failed: '' @ strerror L (errno s5))))
           else (case af of
                   (s6, Throw e) \<Rightarrow> (FD_dtor L (FD_dtor L s6 wr) rd, Throw e)
                 | (s6, Ok v) \<Rightarrow> (FD_dtor L (FD_dtor L s6 wr) rd, Ok v)
                 | (s6, other) \<Rightarrow> (s6, other)))"
    using False
    unfolding af_def pid_def s5_def m_def wr_def s2_def rd_def s1_def p_def
    by (simp add: safe_fork_exec_def Let_def split_beta)
  obtain s4 r4 where mm: "m = (s4, r4)" by (cases m)
  obtain s6 r6 where aa: "af = (s6, r6)" by (cases af)
  have s4: "specs s4 = specs s" using keepm(1) mm by simp
  have T: "specs s6 = specs s" if "r6 = Throw e" for e
    using after_fork_Throw[of L s5 p rd wr pid s6 e] aa that keep5 unfolding af_def by simp
  have O: "specs s6 = (specs s)(Proc_m_spec p := (specs s (Proc_m_spec p))\<lparr>m_pid := v\<rparr>)
           \<and> signal_state s6 = signal_state s \<and> files s6 = files s \<and> procs s6 = procs s"
    if "r6 = Ok v" for v
    using after_fork_Ok[of L s5 p rd wr pid s6 v] aa that keep5 unfolding af_def by simp
  have res: "(s', r) =
      (case r4 of
         Inl e \<Rightarrow> (FD_dtor L (FD_dtor L s4 wr) rd, Throw e)
       | Inr u \<Rightarrow>
           if \<not> pid \<ge> 0
           then (FD_dtor L (FD_dtor L s5 wr) rd,
                 Throw (failure_fmt (''fork failed: '' @ strerror L (errno s5))))
           else (case r6 of
                   Throw e \<Rightarrow> (FD_dtor L (FD_dtor L s6 wr) rd, Throw e)
                 | Ok v \<Rightarrow> (FD_dtor L (FD_dtor L s6 wr) rd, Ok v)
                 | other \<Rightarrow> (s6, other)))"
    using assms unfolding unfold mm aa by (auto split: sum.splits outcome.splits)
  show ?thesis
  proof (cases r4)
    case (Inl e)
    then show ?thesis using res s4 by simp
  next
    case (Inr u)
    show ?thesis
    proof (cases "pid \<ge> 0")
      case False
      then show ?thesis using res Inr keep5 by simp
    next
      case True
      then show ?thesis
        using res Inr T O by (cases r6) (simp_all add: p_def)
    qed
  qed
qed


lemma add_signals_result:
  "add_signals L s sigset sigs = (s', Inr r) \<Longrightarrow> r = sigset \<union> set sigs \<and> signal_state s' = signal_state s"
proof (induction sigs arbitrary: s sigset)
  case Nil
  then show ?case by simp
next
  case (Cons a sigs)
  then show ?case
    by (auto simp: Let_def split_beta split: if_splits)
qed

lemma sys_sigaction_ok:
  assumes "sys_sigaction L s SIGHUP act = (s', rc, old)" and "rc \<noteq> - 1"
  shows "hup_action s' = act \<and> old = hup_action s \<and> sigmask s' = sigmask s"
  using assms by (auto simp: sys_sigaction_def Let_def split_beta split: if_splits)

lemma sys_sigprocmask_ok:
  assumes "sys_sigprocmask L s how sigs = (s', 0, old)"
  shows "old = sigmask s \<and> hup_action s' = hup_action s
       \<and> sigmask s' = (if how = SIG_BLOCK then sigmask s \<union> sigs
                        else if how = SIG_UNBLOCK then sigmask s - sigs
                        else if how = SIG_SETMASK then sigs else sigmask s)"
  using assms by (auto simp: sys_sigprocmask_def Let_def split_beta split: if_splits)

lemma SignalBlocker_ctor_result:
  assumes "SignalBlocker_ctor L s = (s1, Inr sb)"
  shows "sigmask s1 = sigmask s \<union> {SIGCHLD, SIGHUP, SIGTERM, SIGINT, SIGQUIT, SIGPIPE}
       \<and> hup_action s1 = \<lparr>sa_handler = SIG_IGN, sa_mask = {}, sa_flags = 0\<rparr>
       \<and> m_sigset sb = {SIGCHLD, SIGHUP, SIGTERM, SIGINT, SIGQUIT, SIGPIPE}
       \<and> m_oldset sb = sigmask s \<and> m_oldHUPAction sb = hup_action s"
proof -
  let ?sigs = "[SIGCHLD, SIGHUP, SIGTERM, SIGINT, SIGQUIT, SIGPIPE]"
  let ?act = "\<lparr>sa_handler = SIG_IGN, sa_mask = {}, sa_flags = 0\<rparr>"
  define se where "se = fst (sys L s Sigemptyset)"
  obtain s2 r2 where a: "add_signals L se {} ?sigs = (s2, r2)"
    by (cases "add_signals L se {} ?sigs")
  obtain s3 rc oldHUP where b: "sys_sigaction L s2 SIGHUP ?act = (s3, rc, oldHUP)"
    by (cases "sys_sigaction L s2 SIGHUP ?act") auto
  obtain s4 rc2 oldset where c: "sys_sigprocmask L s3 SIG_BLOCK (set ?sigs) = (s4, rc2, oldset)"
    by (cases "sys_sigprocmask L s3 SIG_BLOCK (set ?sigs)") auto
  have unfold: "SignalBlocker_ctor L s =
      (if ret (answer L (trace s) Sigemptyset) \<noteq> 0
       then (se, Inl (failure_fmt (''sigemptyset failed: '' @ strerror L (errno se))))
       else thenE (add_signals L se {} ?sigs)
             (\<lambda>s2 sigset.
                (let (s3, rc, oldHUP) = sys_sigaction L s2 SIGHUP ?act
                 in if rc \<noteq> 0
                    then (s3, Inl (failure_fmt (''sigaction failed: '' @ strerror L (errno s3))))
                    else (let (s4, rc2, oldset) = sys_sigprocmask L s3 SIG_BLOCK sigset
                          in if rc2 \<noteq> 0
                             then (s4, Inl (failure_fmt (''sigprocmask failed: ''
                                                          @ strerror L (errno s4))))
                             else (s4, Inr \<lparr>m_sigset = sigset, m_oldset = oldset,
                                             m_oldHUPAction = oldHUP\<rparr>)))))"
    by (simp add: SignalBlocker_ctor_def Let_def split_beta se_def)
  from assms have ok0: "ret (answer L (trace s) Sigemptyset) = 0"
    unfolding unfold by (auto split: if_splits)
  from assms obtain sigset where r2: "r2 = Inr sigset"
    unfolding unfold using ok0 a by (cases r2) (auto simp: thenE_def)
  have sigset: "sigset = set ?sigs" and k2: "signal_state s2 = signal_state s"
    using add_signals_result[of L se "{}" ?sigs s2 sigset] a r2 by (simp_all add: se_def)
  from assms have fin: "rc = 0 \<and> rc2 = 0 \<and> s1 = s4
       \<and> sb = \<lparr>m_sigset = sigset, m_oldset = oldset, m_oldHUPAction = oldHUP\<rparr>"
    unfolding unfold using ok0 a r2 b c sigset
    by (simp add: thenE_def split: if_splits)
  have hb: "hup_action s3 = ?act \<and> oldHUP = hup_action s2 \<and> sigmask s3 = sigmask s2"
    using sys_sigaction_ok[OF b] fin by simp
  have hc: "oldset = sigmask s3 \<and> hup_action s4 = hup_action s3
       \<and> sigmask s4 = sigmask s3 \<union> set ?sigs"
    using sys_sigprocmask_ok[of L s3 SIG_BLOCK "set ?sigs" s4 oldset] c fin by simp
  show ?thesis
    using fin hb hc k2 sigset by (simp add: signal_state_def)
qed

lemma SignalBlocker_dtor_result:
  assumes "SignalBlocker_dtor L s sb False = (s', Inr u)"
  shows "signal_state s' = (m_oldset sb, m_oldHUPAction sb)"
  using assms
  unfolding SignalBlocker_dtor_def unblock_def thenE_def Let_def split_beta
  by (auto simp: sys_sigaction_def sys_sigprocmask_def signal_state_def Let_def split_beta
        SIG_SETMASK_def SIG_BLOCK_def SIG_UNBLOCK_def
           split: sum.splits if_splits)

lemma exec_leave_Ok:
  assumes "exec_leave fuel L s signals lock thrown = Some (s', Ok u)"
  shows "signal_state s' = (m_oldset signals, m_oldHUPAction signals)"
proof -
  from assms obtain s2 where "SignalBlocker_dtor L s2 signals False = (s', Inr ())"
    unfolding exec_leave_def
    by (auto simp: liftE_def split: option.splits sum.splits prod.splits)
  then show ?thesis by (rule SignalBlocker_dtor_result)
qed

lemma daemon_pipe_exec_Ok:
  assumes "daemon_pipe_exec fuel L s pipe = Some (s', Ok u)"
  shows "signal_state s' = signal_state s"
proof -
  from assms obtain s1 signals s4 lock thrown where
      c: "SignalBlocker_ctor L s = (s1, Inr signals)"
      and l: "exec_leave fuel L s4 signals lock thrown = Some (s', Ok u)"
    unfolding daemon_pipe_exec_def Let_def
    by (auto split: if_splits sum.splits prod.splits outcome.splits)
  show ?thesis
    using exec_leave_Ok[OF l] SignalBlocker_ctor_result[OF c]
    by (simp add: signal_state_def)
qed


lemma forward_signal_frame [simp]:
  "specs (fst (forward_signal L s ps sig)) = specs s"
  "procs (fst (forward_signal L s ps sig)) = procs s"
  "signal_state (fst (forward_signal L s ps sig)) = signal_state s"
  by (induction ps arbitrary: s) (simp_all add: Let_def split_beta)

lemma forward_signal_ok:
  assumes "\<forall>tr pid. ret (answer L tr (Kill pid sig)) = 0"
  shows "snd (forward_signal L s ps sig) = Inr ()
       \<and> trace (fst (forward_signal L s ps sig))
           = trace s @ map (\<lambda>p. Kill (m_pid (specs s (Proc_m_spec p))) sig)
               (filter (\<lambda>p. running (specs s (Proc_m_spec p))
                             \<and> m_forwardSignals (specs s (Proc_m_spec p))) ps)"
proof (induction ps arbitrary: s)
  case Nil
  then show ?case by simp
next
  case (Cons p ps)
  show ?case
  proof (cases "running (specs s (Proc_m_spec p)) \<and> m_forwardSignals (specs s (Proc_m_spec p))")
    case True
    then show ?thesis
      using assms Cons.IH[of "fst (sys L s (Kill (m_pid (specs s (Proc_m_spec p))) sig))"]
      by (simp add: Let_def split_beta)
  next
    case False
    then show ?thesis using Cons.IH[of s] by (auto simp: Let_def)
  qed
qed

lemma forward_signal_calls:
  "\<exists>cs. trace (fst (forward_signal L s ps sig)) = trace s @ cs
     \<and> set cs \<subseteq> set (map (\<lambda>p. Kill (m_pid (specs s (Proc_m_spec p))) sig)
               (filter (\<lambda>p. running (specs s (Proc_m_spec p))
                             \<and> m_forwardSignals (specs s (Proc_m_spec p))) ps))"
proof (induction ps arbitrary: s)
  case Nil
  then show ?case by simp
next
  case (Cons p ps)
  let ?c = "Kill (m_pid (specs s (Proc_m_spec p))) sig"
  show ?case
  proof (cases "running (specs s (Proc_m_spec p)) \<and> m_forwardSignals (specs s (Proc_m_spec p))")
    case True
    obtain cs where "trace (fst (forward_signal L (fst (sys L s ?c)) ps sig))
          = trace (fst (sys L s ?c)) @ cs"
        "set cs \<subseteq> set (map (\<lambda>p. Kill (m_pid (specs s (Proc_m_spec p))) sig)
               (filter (\<lambda>p. running (specs s (Proc_m_spec p))
                             \<and> m_forwardSignals (specs s (Proc_m_spec p))) ps))"
      using Cons.IH[of "fst (sys L s ?c)"] by auto
    then show ?thesis
      using True
      by (cases "ret (answer L (trace s) ?c) = 0") (auto simp: Let_def split_beta)
  next
    case False
    then show ?thesis using Cons.IH[of s] by (auto simp: Let_def)
  qed
qed

lemma harvest_round:
  assumes "harvest_scan L s (procs s) False = (s1, Inr True)"
    and "ret (answer L (trace s1) (Sigwait sigset)) = 0"
  shows "harvest (Suc n) L s sigset =
           (case dispatch L (fst (sys L s1 (Sigwait sigset)))
                   (out1 (answer L (trace s1) (Sigwait sigset))) of
              (s3, Inl e) \<Rightarrow> Some (s3, Inl e)
            | (s3, Inr u) \<Rightarrow> harvest n L s3 sigset)"
  using assms by (simp add: Let_def split_beta)


subsection \<open>The lock file\<close>

lemma writeN_whole:
  assumes "buf \<noteq> []" and "ret (answer L (trace w) (Write fd buf)) = int (length buf)"
  shows "writeN L w fd buf = (fst (sys L w (Write fd buf)), 0)"
  using assms
  by (subst writeN.simps, subst writeN.simps) (simp add: Let_def split_beta)

lemma LockFile_open_fails_to_open:
  assumes "fds s lk = - 1"
    and "ret (answer L (trace s) (Open path (O_CREAT OR O_RDWR) 438)) = - 1"
  shows "\<exists>s'. LockFile_open L s lk path
            = (s', Inl (failure_fmt (''unable to open pidfile '' @ path @ '' for writing: ''
                                      @ strerror L (errno s'))))
          \<and> trace s' = trace s @ [Open path (O_CREAT OR O_RDWR) 438]"
  using assms
  by (simp add: LockFile_open_def FD_reset_def FD_isOk_def thenE_def Let_def split_beta)

lemma LockFile_open_locked:
  assumes "c_open = Open path (O_CREAT OR O_RDWR) 438"
    and "fd = ret (answer L (trace s) c_open)"
    and "fl = ret (answer L (trace s @ [c_open]) (Fcntl fd F_GETFD 0))"
    and "t3 = trace s @ [c_open, Fcntl fd F_GETFD 0, Fcntl fd F_SETFD (fl OR FD_CLOEXEC)]"
    and "c_lock = Flock fd (LOCK_EX OR LOCK_NB)"
    and fresh: "fds s lk = - 1" and opened: "fd \<noteq> - 1" and getfd: "0 \<le> fl"
    and setfd: "0 \<le> ret (answer L (trace s @ [c_open, Fcntl fd F_GETFD 0])
                          (Fcntl fd F_SETFD (fl OR FD_CLOEXEC)))"
    and busy: "ret (answer L t3 c_lock) < 0"
    and closed: "ret (answer L (t3 @ [c_lock]) (Close fd)) = 0"
  shows "\<exists>s'. LockFile_open L s lk path
            = (s', Inl (failure_fmt
                  (if err (answer L t3 c_lock) = EWOULDBLOCK
                   then ''process is already running (pidfile '' @ path @ '' is locked)''
                   else ''unable to lock pidfile '' @ path)))
          \<and> trace s' = t3 @ [c_lock, Close fd] \<and> fds s' lk = - 1"
  using assms
  by (simp add: LockFile_open_def FD_reset_def FD_isOk_def FD_setCloseOnExec_def thenE_def
        Let_def split_beta sys_errno)

lemma LockFile_open_taken:
  assumes "c_open = Open path (O_CREAT OR O_RDWR) 438"
    and "fd = ret (answer L (trace s) c_open)"
    and "fl = ret (answer L (trace s @ [c_open]) (Fcntl fd F_GETFD 0))"
    and "t4 = trace s @ [c_open, Fcntl fd F_GETFD 0, Fcntl fd F_SETFD (fl OR FD_CLOEXEC),
                         Flock fd (LOCK_EX OR LOCK_NB)]"
    and "buf = show_int (ret (answer L (t4 @ [Ftruncate fd 0]) Getpid)) @ [NL]"
    and fresh: "fds s lk = - 1" and opened: "fd \<noteq> - 1" and getfd: "0 \<le> fl"
    and setfd: "0 \<le> ret (answer L (trace s @ [c_open, Fcntl fd F_GETFD 0])
                          (Fcntl fd F_SETFD (fl OR FD_CLOEXEC)))"
    and locked: "ret (answer L (trace s @ [c_open, Fcntl fd F_GETFD 0,
                        Fcntl fd F_SETFD (fl OR FD_CLOEXEC)]) (Flock fd (LOCK_EX OR LOCK_NB))) = 0"
    and truncated: "ret (answer L t4 (Ftruncate fd 0)) = 0"
    and written: "ret (answer L (t4 @ [Ftruncate fd 0, Getpid]) (Write fd buf)) = int (length buf)"
  shows "\<exists>s'. LockFile_open L s lk path = (s', Inr ())
          \<and> trace s' = t4 @ [Ftruncate fd 0, Getpid, Write fd buf] \<and> fds s' lk = fd"
  using assms
  by (simp add: LockFile_open_def FD_reset_def FD_isOk_def FD_setCloseOnExec_def thenE_def
        Let_def split_beta sys_errno writeN_whole)

lemma LockFile_dtor_not_held: "fds h lk = - 1 \<Longrightarrow> LockFile_dtor L h lk = (h, Inr ())"
  by (simp add: LockFile_dtor_def FD_isOk_def)

lemma LockFile_dtor_held:
  assumes "fds h lk \<noteq> - 1" and "fd = fds h lk"
  shows "\<exists>h' r. LockFile_dtor L h lk = (h', r)
          \<and> (trace h' = trace h @ [Ftruncate fd 0, Close fd]
               \<or> trace h' = trace h @ [Ftruncate fd 0, Close fd, Close fd])
          \<and> (ret (answer L (trace h @ [Ftruncate fd 0]) (Close fd)) = 0
               \<longrightarrow> trace h' = trace h @ [Ftruncate fd 0, Close fd] \<and> fds h' lk = - 1
                   \<and> r = Inr ())"
  using assms
  by (simp add: LockFile_dtor_def FD_dtor_def FD_reset_def FD_isOk_def Let_def split_beta)


subsection \<open>The fallback of \<^verbatim>\<open>try_error_write\<close>\<close>

lemma writeN_trace:
  "\<exists>cs. trace (fst (writeN L w fd buf)) = trace w @ cs
        \<and> (buf \<noteq> [] \<longrightarrow> (\<exists>cs'. cs = Write fd buf # cs'))"
proof (induction L w fd buf rule: writeN.induct)
  case (1 L w fd buf)
  show ?case
  proof (cases "length buf > 0 \<and> \<not> ret (answer L (trace w) (Write fd buf)) \<le> 0")
    case True
    then show ?thesis
      using "1.IH"[OF _ refl prod.collapse refl]
      by (subst writeN.simps) (auto simp: Let_def split_beta)
  next
    case False
    then show ?thesis
      by (subst writeN.simps) (auto simp: Let_def split_beta)
  qed
qed

lemma SignalBlocker_dtor_trace:
  "\<exists>cs. trace (fst (SignalBlocker_dtor L s sb uncaught)) = trace s @ cs"
  by (simp add: SignalBlocker_dtor_def unblock_def thenE_def sys_sigprocmask_def
        sys_sigaction_def Let_def split_beta)

lemma SignalBlocker_dtor_quiet:
  assumes "ret (answer L (trace s) (Sigprocmask SIG_SETMASK (m_oldset sb))) = 0"
    and "ret (answer L (trace s @ [Sigprocmask SIG_SETMASK (m_oldset sb)])
                (Sigaction SIGHUP (m_oldHUPAction sb))) \<noteq> - 1"
  shows "snd (SignalBlocker_dtor L s sb False) = Inr ()"
  using assms
  by (simp add: SignalBlocker_dtor_def unblock_def thenE_def sys_sigprocmask_def
        sys_sigaction_def Let_def split_beta)

section \<open>Claims\<close>




text \<open>
  C9. Running a pipeline without any process fails with the message
  \<open>no procs to execute\<close> and leaves the state of the process as it was: no call
  has been made, so no signal is blocked, no lock taken and no endpoint opened.
\<close>

theorem exec_no_procs:
  "daemon_pipe_exec fuel L s (pipe\<lparr>m_specs := []\<rparr>)
     = Some (s, Throw (failure_fmt ''no procs to execute''))"
  by (simp add: daemon_pipe_exec_def)

theorem exec_no_procs_witness:
  "daemon_pipe_exec 0 ok_libc init_state \<lparr>m_lockFile = ''/tmp/lock'', m_specs = []\<rparr>
     = Some (init_state, Throw (failure_fmt ''no procs to execute''))
   \<and> trace init_state = []
   \<and> what (failure_fmt ''no procs to execute'') = Some ''no procs to execute''"
proof -
  have "what (failure_fmt ''no procs to execute'') = Some ''no procs to execute''"
    by (simp add: what_failure_fmt NUL_def)
  then show ?thesis
    using exec_no_procs[of 0 ok_libc init_state "\<lparr>m_lockFile = ''/tmp/lock'', m_specs = []\<rparr>"]
    by (simp add: init_state_def)
qed

text \<open>
  C1. The flags that \<^verbatim>\<open>File::open\<close> computes for a named path wanted for reading and
  for writing have the access mode \<^verbatim>\<open>O_WRONLY\<close>, not \<^verbatim>\<open>O_RDWR\<close>: with two processes
  sharing the file \<open>/tmp/x\<close>, the path is opened once with \<^verbatim>\<open>O_CREAT|O_WRONLY\<close>, and
  that one descriptor becomes the read side and the write side.
\<close>

theorem File_open_read_write_mode:
  "open_mode True True a AND O_ACCMODE = O_WRONLY \<and> O_WRONLY \<noteq> O_RDWR
   \<and> (case File_open ok_libc (wire rw_state [0, 1]) 0 of
        (s, r) \<Rightarrow>
          trace s = [Open ''/tmp/x'' (O_CREAT OR O_WRONLY) 438, Fcntl 5 F_GETFD 0,
                     Fcntl 5 F_SETFD FD_CLOEXEC]
          \<and> r = Inr ()
          \<and> m_wantRead (files s ! 0) \<and> m_wantWrite (files s ! 0)
          \<and> m_readSide (files s ! 0) = Some 0 \<and> m_writeSide (files s ! 0) = Some 0
          \<and> fds s 0 = 5)"
proof -
  have 1: "open_mode True True a AND O_ACCMODE = O_WRONLY"
    by (cases a)
       (simp_all add: open_mode_def O_RDONLY_def O_CREAT_def O_WRONLY_def O_APPEND_def
          O_ACCMODE_def)
  have 2: "O_WRONLY \<noteq> O_RDWR" by (simp add: O_WRONLY_def O_RDWR_def)
  have 3: "(case File_open ok_libc (wire rw_state [0, 1]) 0 of
        (s, r) \<Rightarrow>
          trace s = [Open ''/tmp/x'' (O_CREAT OR O_WRONLY) 438, Fcntl 5 F_GETFD 0,
                     Fcntl 5 F_SETFD FD_CLOEXEC]
          \<and> r = Inr ()
          \<and> m_wantRead (files s ! 0) \<and> m_wantWrite (files s ! 0)
          \<and> m_readSide (files s ! 0) = Some 0 \<and> m_writeSide (files s ! 0) = Some 0
          \<and> fds s 0 = 5)"
    by code_simp
  from 1 2 3 show ?thesis by blast
qed

theorem File_open_read_write_mode_witness:
  "open_mode True True False AND O_ACCMODE = O_WRONLY \<and> open_mode True True False = 65"
  using File_open_read_write_mode[of False]
  by (simp add: open_mode_def O_RDONLY_def O_CREAT_def O_WRONLY_def)


text \<open>
  C8, the claim as it is written, fails when a name occurs twice: \<^verbatim>\<open>putenv\<close> replaces
  the entry of that name, so of \<open>A=1\<close> and \<open>A=2\<close> only \<open>A=2\<close> reaches the command.
\<close>

theorem helper_environment_repeated_name:
  "(case main ok_libc init_world
          [''exec_with_namespace'', ''/bin/true'', ''--'', ''nsA'', ''--'', ''A=1'', ''A=2''] of
      (w, r) \<Rightarrow>
        r = Exec_done
        \<and> last (trace w) = Execvp ''/bin/true'' [''/bin/true''] [''A=2'']
        \<and> set (environ w) \<noteq> set [''A=1'', ''A=2''])"
  by code_simp

text \<open>
  C8, amended. Whatever stands before the last \<^verbatim>\<open>--\<close> of the helper's command line,
  and whatever the operating system answers: when the entries after it each contain
  \<^verbatim>\<open>=\<close> and have pairwise different names, and the helper reaches a successful
  \<^verbatim>\<open>execvp\<close>, the environment of the executed command is exactly the list of these
  entries (the inherited environment is gone). The command line the launcher builds
  has this form, with the launcher's \<^verbatim>\<open>environ\<close> as the entries.
\<close>

theorem helper_environment_round_trip:
  assumes "\<forall>e\<in>set envs. CHR ''='' \<in> set e"
    and "distinct (map env_name envs)"
    and "main L w (pre @ ''--'' # envs) = (w', Exec_done)"
  shows "environ w' = envs
         \<and> (\<exists>file args. last (trace w') = Execvp file args envs)
         \<and> helper_argv devname namespace_argv cmd_argv envs
             = ([WITH_NAMESPACE_DIR @ ''/exec_with_namespace''] @ cmd_argv @ [''--'', devname]
                  @ namespace_argv) @ ''--'' # envs"
proof -
  let ?argv = "pre @ ''--'' # envs"
  have no_sep: "''--'' \<notin> set envs"
    using assms(1) by auto
  have cb: "collect_back ?argv (int (length pre) + int (length envs)) [] = (envs, int (length pre))"
    using collect_back_stop[OF refl no_sep le_refl, of pre "[]"] by simp
  from assms(3) obtain pn ns ex where priv: "main_privileged L w pn envs ns ex = (w', Exec_done)"
    by (auto simp: main_nonempty cb usage_def check_fail_def create_symlinks_not_exec
             split: if_splits prod.splits)
  have "fold putenv_environ envs [] = [] @ envs"
    using assms(1,2) by (intro fold_putenv_environ) auto
  with main_privileged_exec[OF priv] show ?thesis
    by (auto simp: helper_argv_def)
qed

theorem helper_environment_round_trip_witness:
  "environ (fst (main ok_libc init_world
      ([''exec_with_namespace'', ''/bin/true'', ''--'', ''nsA'', ''bin=/usr/local/bin'']
         @ ''--'' # [''PATH=/bin'', ''X=1'']))) = [''PATH=/bin'', ''X=1'']"
proof -
  let ?argv = "[''exec_with_namespace'', ''/bin/true'', ''--'', ''nsA'', ''bin=/usr/local/bin'']
         @ ''--'' # [''PATH=/bin'', ''X=1'']"
  have run: "snd (main ok_libc init_world ?argv) = Exec_done"
    by code_simp
  have 1: "\<forall>e\<in>set [''PATH=/bin'', ''X=1'']. CHR ''='' \<in> set e" by simp
  have 2: "distinct (map env_name [''PATH=/bin'', ''X=1''])" by (simp add: env_name_def)
  have 3: "main ok_libc init_world ?argv = (fst (main ok_libc init_world ?argv), Exec_done)"
    using run by (metis prod.collapse)
  show ?thesis
    using helper_environment_round_trip[OF 1 2 3] by blast
qed









text \<open>
  C6. When \<^verbatim>\<open>daemon_pipe::exec\<close> returns normally, the signal mask and the disposition of
  SIGHUP are what they were when it was called. The constructor of the
  \<^verbatim>\<open>SignalBlocker\<close>, when it succeeds, has added SIGCHLD, SIGHUP, SIGTERM, SIGINT,
  SIGQUIT and SIGPIPE to the mask, has set SIGHUP to \<^verbatim>\<open>SIG_IGN\<close>, and holds the previous
  mask and disposition; its destructor, when it does not throw, has put back the mask
  and the disposition it holds.
\<close>

theorem exec_restores_signal_state:
  "(\<forall>s' u. daemon_pipe_exec fuel L s pipe = Some (s', Ok u)
       \<longrightarrow> sigmask s' = sigmask s \<and> hup_action s' = hup_action s)
   \<and> (\<forall>s1 sb. SignalBlocker_ctor L s = (s1, Inr sb)
       \<longrightarrow> sigmask s1 = sigmask s \<union> {SIGCHLD, SIGHUP, SIGTERM, SIGINT, SIGQUIT, SIGPIPE}
           \<and> hup_action s1 = \<lparr>sa_handler = SIG_IGN, sa_mask = {}, sa_flags = 0\<rparr>
           \<and> m_oldset sb = sigmask s \<and> m_oldHUPAction sb = hup_action s)
   \<and> (\<forall>s2 s3 sb u. SignalBlocker_dtor L s2 sb False = (s3, Inr u)
       \<longrightarrow> sigmask s3 = m_oldset sb \<and> hup_action s3 = m_oldHUPAction sb)"
proof -
  have 1: "\<forall>s' u. daemon_pipe_exec fuel L s pipe = Some (s', Ok u)
       \<longrightarrow> sigmask s' = sigmask s \<and> hup_action s' = hup_action s"
    using daemon_pipe_exec_Ok[of fuel L s pipe] by (simp add: signal_state_def)
  have 2: "\<forall>s1 sb. SignalBlocker_ctor L s = (s1, Inr sb)
       \<longrightarrow> sigmask s1 = sigmask s \<union> {SIGCHLD, SIGHUP, SIGTERM, SIGINT, SIGQUIT, SIGPIPE}
           \<and> hup_action s1 = \<lparr>sa_handler = SIG_IGN, sa_mask = {}, sa_flags = 0\<rparr>
           \<and> m_oldset sb = sigmask s \<and> m_oldHUPAction sb = hup_action s"
    using SignalBlocker_ctor_result[of L s] by blast
  have 3: "\<forall>s2 s3 sb u. SignalBlocker_dtor L s2 sb False = (s3, Inr u)
       \<longrightarrow> sigmask s3 = m_oldset sb \<and> hup_action s3 = m_oldHUPAction sb"
    using SignalBlocker_dtor_result[of L] by (simp add: signal_state_def)
  from 1 2 3 show ?thesis by blast
qed

theorem exec_restores_signal_state_witness:
  "snd (the (daemon_pipe_exec 3 ok_libc cat_state cat_pipe)) = Ok ()
   \<and> sigmask (fst (the (daemon_pipe_exec 3 ok_libc cat_state cat_pipe))) = {2, 10}
   \<and> hup_action (fst (the (daemon_pipe_exec 3 ok_libc cat_state cat_pipe)))
       = \<lparr>sa_handler = 4096, sa_mask = {}, sa_flags = 0\<rparr>"
proof -
  have "(case daemon_pipe_exec 3 ok_libc cat_state cat_pipe of
           None \<Rightarrow> False | Some (s, r) \<Rightarrow> r = Ok ())"
    by code_simp
  then obtain s' where run: "daemon_pipe_exec 3 ok_libc cat_state cat_pipe = Some (s', Ok ())"
    by (auto split: option.splits)
  have st: "sigmask cat_state = {2, 10}"
      "hup_action cat_state = \<lparr>sa_handler = 4096, sa_mask = {}, sa_flags = 0\<rparr>"
    by (simp_all add: cat_state_def init_state_def)
  from conjunct1[OF exec_restores_signal_state[of 3 ok_libc cat_state cat_pipe],
                 rule_format, OF run]
  show ?thesis using st by (simp add: run)
qed














end
